theory Spec2Isabelle
  imports Complex_Main
begin

section \<open>Python and PyTorch values\<close>

text \<open>
  The model follows \<^verbatim>\<open>VAE/models/dcae.py\<close>. Python integers are \<open>int\<close>
  (with \<open>div\<close> and \<open>mod\<close> for \<^verbatim>\<open>//\<close> and \<^verbatim>\<open>%\<close>, both flooring), tensor
  dimensions and indices are \<open>nat\<close>, tensor elements are \<open>real\<close>: floating-point
  rounding is not modelled and a dtype cast is the identity. Every \<^verbatim>\<open>raise\<close>,
  failed \<^verbatim>\<open>assert\<close> and library error is a value \<open>Inl e\<close> of the result type.
\<close>

datatype error =
  ValueError | AssertionError | AttributeError | TypeError
  | ZeroDivisionError | IndexError | RuntimeError

text \<open>Sequencing of fallible steps: the first error is the result.\<close>

definition bind :: "error + 'a \<Rightarrow> ('a \<Rightarrow> error + 'b) \<Rightarrow> error + 'b" where
  "bind m f = (case m of Inl e \<Rightarrow> Inl e | Inr v \<Rightarrow> f v)"

text \<open>
  \<^verbatim>\<open>str.lower()\<close> on the ASCII letters. A string is a list of bytes; no character
  outside ASCII lowers to an ASCII letter of the activation names, so the bytes of
  such a character are left as they are.
\<close>

definition lower_char :: "char \<Rightarrow> char" where
  "lower_char c =
     (let n = (of_char c :: nat) in if 65 \<le> n \<and> n \<le> 90 then char_of (n + 32) else c)"

definition lower :: "string \<Rightarrow> string" where
  "lower s = map lower_char s"

section \<open>Activation and normalization selectors\<close>

datatype activation = SiLU | Mish | GELU | ReLU | Identity

definition ACTIVATION_FUNCTIONS :: "(string \<times> activation) list" where
  "ACTIVATION_FUNCTIONS =
     [(''swish'', SiLU), (''silu'', SiLU), (''mish'', Mish), (''gelu'', GELU), (''relu'', ReLU)]"

definition get_activation :: "string \<Rightarrow> error + activation" where
  "get_activation act_fn =
     (let act_fn = lower act_fn in
      case map_of ACTIVATION_FUNCTIONS act_fn of
        Some a \<Rightarrow> Inr a
      | None \<Rightarrow> Inl ValueError)"

text \<open>
  \<^verbatim>\<open>RMSNorm.__init__\<close>. \<open>dim'\<close> (the source's \<^verbatim>\<open>dim\<close>) is \<^verbatim>\<open>Optional[int]\<close> as \<^verbatim>\<open>get_normalization\<close>
  passes it: \<^verbatim>\<open>torch.Size(None)\<close> raises TypeError, and \<^verbatim>\<open>torch.ones\<close> of a
  negative size raises RuntimeError. The weight starts as ones, the bias as zeros.
\<close>

record RMSNorm =
  rms_eps :: real
  rms_elementwise_affine :: bool
  rms_dim :: int
  rms_weight :: "real list option"
  rms_bias :: "real list option"

definition RMSNorm_init :: "int option \<Rightarrow> real \<Rightarrow> bool \<Rightarrow> bool \<Rightarrow> error + RMSNorm" where
  "RMSNorm_init dim' eps elementwise_affine bias =
     (case dim' of
        None \<Rightarrow> Inl TypeError
      | Some d \<Rightarrow>
          if elementwise_affine then
            (if d < 0 then Inl RuntimeError
             else Inr \<lparr>rms_eps = eps, rms_elementwise_affine = elementwise_affine, rms_dim = d,
                       rms_weight = Some (replicate (nat d) 1),
                       rms_bias = (if bias then Some (replicate (nat d) 0) else None)\<rparr>)
          else Inr \<lparr>rms_eps = eps, rms_elementwise_affine = elementwise_affine, rms_dim = d,
                    rms_weight = None, rms_bias = None\<rparr>)"

text \<open>
  The two PyTorch normalizations are kept as their configuration.
  \<^verbatim>\<open>nn.LayerNorm\<close> allocates its parameters only when affine; \<^verbatim>\<open>nn.BatchNorm2d\<close>
  always allocates its running statistics, so a negative size always fails.
\<close>

datatype normalization =
  RMSNorm_module RMSNorm
  | LayerNorm int real bool bool
  | BatchNorm2d int real bool

definition LayerNorm_init :: "int option \<Rightarrow> real \<Rightarrow> bool \<Rightarrow> bool \<Rightarrow> error + normalization" where
  "LayerNorm_init num_features eps elementwise_affine bias =
     (case num_features of
        None \<Rightarrow> Inl TypeError
      | Some d \<Rightarrow>
          if elementwise_affine \<and> d < 0 then Inl RuntimeError
          else Inr (LayerNorm d eps elementwise_affine bias))"

definition BatchNorm2d_init :: "int option \<Rightarrow> real \<Rightarrow> bool \<Rightarrow> error + normalization" where
  "BatchNorm2d_init num_features eps affine =
     (case num_features of
        None \<Rightarrow> Inl TypeError
      | Some d \<Rightarrow> if d < 0 then Inl RuntimeError else Inr (BatchNorm2d d eps affine))"

definition get_normalization ::
  "string \<Rightarrow> int option \<Rightarrow> real \<Rightarrow> bool \<Rightarrow> bool \<Rightarrow> error + normalization" where
  "get_normalization norm_type num_features eps elementwise_affine bias =
     (if norm_type = ''rms_norm'' then
        bind (RMSNorm_init num_features eps elementwise_affine bias) (\<lambda>n. Inr (RMSNorm_module n))
      else if norm_type = ''layer_norm'' then
        LayerNorm_init num_features eps elementwise_affine bias
      else if norm_type = ''batch_norm'' then
        BatchNorm2d_init num_features eps elementwise_affine
      else Inl ValueError)"

text \<open>The defaults of \<^verbatim>\<open>get_normalization\<close>: \<^verbatim>\<open>eps=1e-5\<close>, affine, with bias.\<close>

definition get_normalization_default :: "string \<Rightarrow> int option \<Rightarrow> error + normalization" where
  "get_normalization_default norm_type num_features =
     get_normalization norm_type num_features (1 / 100000) True True"

section \<open>Shapes\<close>

text \<open>
  A shape is the list of a tensor's dimension sizes. Feature maps have rank four,
  \<open>(batch, channels, height, width)\<close>, as the data model has them; the forward passes
  are modelled on such inputs, and a shape rule reports any other rank as an error.
  The rules below are those of the PyTorch operations the source calls.
\<close>

fun dims4 :: "nat list \<Rightarrow> (nat \<times> nat \<times> nat \<times> nat) option" where
  "dims4 [a, b, c, d] = Some (a, b, c, d)"
| "dims4 _ = None"

text \<open>
  Broadcasting: shapes are aligned from the last dimension; two sizes agree when
  they are equal or one of them is one, which is then repeated.
\<close>

definition broadcast_dim :: "nat \<Rightarrow> nat \<Rightarrow> nat option" where
  "broadcast_dim a b =
     (if a = b then Some a else if a = 1 then Some b else if b = 1 then Some a else None)"

fun broadcast_rev :: "nat list \<Rightarrow> nat list \<Rightarrow> nat list option" where
  "broadcast_rev [] ys = Some ys"
| "broadcast_rev xs [] = Some xs"
| "broadcast_rev (x # xs) (y # ys) =
     (case broadcast_dim x y of
        None \<Rightarrow> None
      | Some d \<Rightarrow> (case broadcast_rev xs ys of None \<Rightarrow> None | Some ds \<Rightarrow> Some (d # ds)))"

definition broadcast_shapes :: "nat list \<Rightarrow> nat list \<Rightarrow> nat list option" where
  "broadcast_shapes s t = map_option rev (broadcast_rev (rev s) (rev t))"

definition broadcast_result :: "nat list \<Rightarrow> nat list \<Rightarrow> error + nat list" where
  "broadcast_result s t =
     (case broadcast_shapes s t of None \<Rightarrow> Inl RuntimeError | Some r \<Rightarrow> Inr r)"

text \<open>\<^verbatim>\<open>x.movedim(1, -1)\<close> and \<^verbatim>\<open>x.movedim(-1, 1)\<close>.\<close>

definition movedim_1_last :: "nat list \<Rightarrow> error + nat list" where
  "movedim_1_last s =
     (case s of a # b # rest \<Rightarrow> Inr (a # rest @ [b]) | _ \<Rightarrow> Inl IndexError)"

definition movedim_last_1 :: "nat list \<Rightarrow> error + nat list" where
  "movedim_last_1 s =
     (case s of
        a # b # rest \<Rightarrow> Inr (a # last (b # rest) # butlast (b # rest))
      | _ \<Rightarrow> Inl IndexError)"

text \<open>
  \<^verbatim>\<open>torch.cat\<close> along dimension \<open>d\<close>: an empty list is refused, tensors of shape
  \<open>[0]\<close> are skipped, and the others must have the same rank and agree on every
  dimension but \<open>d\<close>.
\<close>

definition cat_shape :: "nat \<Rightarrow> nat list list \<Rightarrow> error + nat list" where
  "cat_shape d ss =
     (case ss of
        [] \<Rightarrow> Inl RuntimeError
      | s0 # _ \<Rightarrow>
          (case filter (\<lambda>s. s \<noteq> [0]) ss of
             [] \<Rightarrow> Inr s0
           | s # rest \<Rightarrow>
               if d < length s
                  \<and> list_all (\<lambda>t. length t = length s \<and> take d t = take d s
                                  \<and> drop (Suc d) t = drop (Suc d) s) rest
               then Inr (s[d := sum_list (map (\<lambda>t. t ! d) (s # rest))])
               else Inl RuntimeError))"

text \<open>
  The size \<^verbatim>\<open>reshape\<close> infers for its one \<^verbatim>\<open>-1\<close>, from the number of elements and
  the product of the sizes given. A negative size, a product of zero and a remainder
  are refused.
\<close>

definition infer_dim :: "nat \<Rightarrow> int \<Rightarrow> error + nat" where
  "infer_dim numel known =
     (if known \<le> 0 then Inl RuntimeError
      else if int numel mod known \<noteq> 0 then Inl RuntimeError
      else Inr (nat (int numel div known)))"

text \<open>
  \<^verbatim>\<open>a, b, c = x.chunk(3, dim=2)\<close> and \<^verbatim>\<open>a, b = torch.chunk(x, 2, dim=1)\<close>: chunks of
  \<open>ceil (n / chunks)\<close> along the dimension (of size zero when \<open>n\<close> is zero); unpacking
  raises ValueError when fewer chunks come back.
\<close>

definition chunk_sizes :: "nat \<Rightarrow> nat \<Rightarrow> nat list" where
  "chunk_sizes n chunks =
     (if n = 0 then replicate chunks 0
      else let c = (n + chunks - 1) div chunks in
        map (\<lambda>i. min c (n - i * c)) [0..<(n + c - 1) div c])"

definition chunk3_dim2 :: "nat list \<Rightarrow> error + nat list \<times> nat list \<times> nat list" where
  "chunk3_dim2 s =
     (case dims4 s of
        None \<Rightarrow> Inl IndexError
      | Some (b, g, n, m) \<Rightarrow>
          (case chunk_sizes n 3 of
             [c1, c2, c3] \<Rightarrow> Inr ([b, g, c1, m], [b, g, c2, m], [b, g, c3, m])
           | _ \<Rightarrow> Inl ValueError))"

definition chunk2_dim1 :: "nat list \<Rightarrow> error + nat list \<times> nat list" where
  "chunk2_dim1 s =
     (case dims4 s of
        None \<Rightarrow> Inl IndexError
      | Some (b, n, h, w) \<Rightarrow>
          (case chunk_sizes n 2 of
             [c1, c2] \<Rightarrow> Inr ([b, c1, h, w], [b, c2, h, w])
           | _ \<Rightarrow> Inl ValueError))"

text \<open>
  \<^verbatim>\<open>F.pixel_unshuffle(x, r)\<close>: height and width must be multiples of \<open>r\<close>. After
  these checks a tensor of no elements (one of its sizes is zero) is returned as it
  is, with its shape unchanged; this is what the kernel PyTorch runs on the CPU does.
  For a tensor that has elements the channels grow by \<open>r\<^sup>2\<close> and height and width
  shrink by \<open>r\<close>.
\<close>

definition pixel_unshuffle_shape :: "nat list \<Rightarrow> int \<Rightarrow> error + nat list" where
  "pixel_unshuffle_shape s r =
     (case dims4 s of
        None \<Rightarrow> Inl RuntimeError
      | Some (b, c, h, w) \<Rightarrow>
          if r \<le> 0 then Inl RuntimeError
          else if h mod nat r \<noteq> 0 \<or> w mod nat r \<noteq> 0 then Inl RuntimeError
          else if b = 0 \<or> c = 0 \<or> h = 0 \<or> w = 0 then Inr s
          else Inr [b, c * nat r * nat r, h div nat r, w div nat r])"

text \<open>
  \<^verbatim>\<open>x.unflatten(1, (-1, g))\<close> splits dimension 1 into \<open>(size / g, g)\<close>, for a positive
  \<open>g\<close> that divides the size; \<^verbatim>\<open>x.mean(dim=2)\<close> removes dimension 2.
\<close>

definition unflatten_dim1_shape :: "nat list \<Rightarrow> int \<Rightarrow> error + nat list" where
  "unflatten_dim1_shape s g =
     (case s of
        b # c # rest \<Rightarrow>
          if g \<le> 0 then Inl RuntimeError
          else if c mod nat g \<noteq> 0 then Inl RuntimeError
          else Inr (b # c div nat g # nat g # rest)
      | _ \<Rightarrow> Inl IndexError)"

definition mean_dim2_shape :: "nat list \<Rightarrow> error + nat list" where
  "mean_dim2_shape s =
     (case s of a # b # c # rest \<Rightarrow> Inr (a # b # rest) | _ \<Rightarrow> Inl IndexError)"

text \<open>
  The operations of the attention formulas, on rank four: padding the rows with one
  row, \<^verbatim>\<open>transpose(-1, -2)\<close>, \<^verbatim>\<open>torch.matmul\<close> (batched over the two leading
  dimensions, which broadcast), the slices \<^verbatim>\<open>x[:, :, :-1]\<close> and \<^verbatim>\<open>x[:, :, -1:]\<close>,
  and \<^verbatim>\<open>torch.sum(x, dim=2, keepdim=True)\<close>.
\<close>

definition pad_row_shape :: "nat list \<Rightarrow> error + nat list" where
  "pad_row_shape s =
     (case dims4 s of None \<Rightarrow> Inl RuntimeError | Some (b, h, r, c) \<Rightarrow> Inr [b, h, r + 1, c])"

definition transpose_last_shape :: "nat list \<Rightarrow> error + nat list" where
  "transpose_last_shape s =
     (case dims4 s of None \<Rightarrow> Inl RuntimeError | Some (b, h, r, c) \<Rightarrow> Inr [b, h, c, r])"

definition matmul_shape :: "nat list \<Rightarrow> nat list \<Rightarrow> error + nat list" where
  "matmul_shape s t =
     (case dims4 s of
        None \<Rightarrow> Inl RuntimeError
      | Some (b1, h1, r, n) \<Rightarrow>
          (case dims4 t of
             None \<Rightarrow> Inl RuntimeError
           | Some (b2, h2, n', c) \<Rightarrow>
               (case broadcast_shapes [b1, h1] [b2, h2] of
                  None \<Rightarrow> Inl RuntimeError
                | Some bh \<Rightarrow> if n = n' then Inr (bh @ [r, c]) else Inl RuntimeError)))"

definition rows_but_last_shape :: "nat list \<Rightarrow> error + nat list" where
  "rows_but_last_shape s =
     (case dims4 s of None \<Rightarrow> Inl IndexError | Some (b, h, r, c) \<Rightarrow> Inr [b, h, r - 1, c])"

definition row_last_shape :: "nat list \<Rightarrow> error + nat list" where
  "row_last_shape s =
     (case dims4 s of None \<Rightarrow> Inl IndexError | Some (b, h, r, c) \<Rightarrow> Inr [b, h, min 1 r, c])"

definition sum_dim2_keepdim_shape :: "nat list \<Rightarrow> error + nat list" where
  "sum_dim2_keepdim_shape s =
     (case dims4 s of None \<Rightarrow> Inl IndexError | Some (b, h, r, c) \<Rightarrow> Inr [b, h, 1, c])"

text \<open>Python's \<^verbatim>\<open>xs[i]\<close> for \<open>i \<ge> 0\<close> and \<^verbatim>\<open>xs[-1]\<close>; out of range is IndexError.\<close>

definition py_index :: "'a list \<Rightarrow> nat \<Rightarrow> error + 'a" where
  "py_index xs i = (if i < length xs then Inr (xs ! i) else Inl IndexError)"

definition py_last :: "'a list \<Rightarrow> error + 'a" where
  "py_last xs = (case xs of [] \<Rightarrow> Inl IndexError | _ \<Rightarrow> Inr (last xs))"

text \<open>The list comprehension or loop over fallible calls: the first error ends it.\<close>

fun map_result :: "('a \<Rightarrow> error + 'b) \<Rightarrow> 'a list \<Rightarrow> error + 'b list" where
  "map_result f [] = Inr []"
| "map_result f (x # xs) = bind (f x) (\<lambda>y. bind (map_result f xs) (\<lambda>ys. Inr (y # ys)))"

text \<open>A sequence of modules applied one after another, as \<^verbatim>\<open>nn.Sequential\<close> does.\<close>

fun fold_result :: "('m \<Rightarrow> 'a \<Rightarrow> error + 'a) \<Rightarrow> 'm list \<Rightarrow> 'a \<Rightarrow> error + 'a" where
  "fold_result f [] x = Inr x"
| "fold_result f (m # ms) x = bind (f m x) (fold_result f ms)"

section \<open>Modules and their constructors\<close>

text \<open>
  A module is kept as the configuration its constructor builds; the values of the
  learned weights are not part of it. \<^verbatim>\<open>nn.Conv2d\<close> checks its groups (ValueError)
  and then allocates a weight of \<^verbatim>\<open>(out, in // groups, k, k)\<close>, which raises
  RuntimeError when a size is negative; \<^verbatim>\<open>nn.Linear\<close> allocates \<^verbatim>\<open>(out, in)\<close>.
\<close>

record Conv2d =
  conv_in_channels :: int
  conv_out_channels :: int
  conv_kernel_size :: int
  conv_stride :: int
  conv_padding :: int
  conv_groups :: int

definition Conv2d_init :: "int \<Rightarrow> int \<Rightarrow> int \<Rightarrow> int \<Rightarrow> int \<Rightarrow> int \<Rightarrow> error + Conv2d" where
  "Conv2d_init in_channels out_channels kernel_size stride padding groups =
     (if groups \<le> 0 then Inl ValueError
      else if in_channels mod groups \<noteq> 0 then Inl ValueError
      else if out_channels mod groups \<noteq> 0 then Inl ValueError
      else if out_channels < 0 \<or> in_channels div groups < 0 \<or> kernel_size < 0 then Inl RuntimeError
      else Inr \<lparr>conv_in_channels = in_channels, conv_out_channels = out_channels,
                conv_kernel_size = kernel_size, conv_stride = stride,
                conv_padding = padding, conv_groups = groups\<rparr>)"

record Linear =
  in_features :: int
  out_features :: int

definition Linear_init :: "int \<Rightarrow> int \<Rightarrow> error + Linear" where
  "Linear_init n_in n_out =
     (if n_in < 0 \<or> n_out < 0 then Inl RuntimeError
      else Inr \<lparr>in_features = n_in, out_features = n_out\<rparr>)"

record ResBlock =
  rb_norm_type :: string
  rb_nonlinearity :: activation
  rb_conv1 :: Conv2d
  rb_conv2 :: Conv2d
  rb_norm :: normalization

text \<open>
  \<^verbatim>\<open>ResBlock.__init__\<close>; \<open>act_fn\<close> is \<open>None\<close> for Python's \<^verbatim>\<open>None\<close>. The
  activation is looked up first, before any convolution is built.
\<close>

definition ResBlock_init :: "int \<Rightarrow> int \<Rightarrow> string \<Rightarrow> string option \<Rightarrow> error + ResBlock" where
  "ResBlock_init in_channels out_channels norm_type act_fn =
     bind (case act_fn of Some a \<Rightarrow> get_activation a | None \<Rightarrow> Inr Identity) (\<lambda>nonlinearity.
     bind (Conv2d_init in_channels in_channels 3 1 1 1) (\<lambda>conv1.
     bind (Conv2d_init in_channels out_channels 3 1 1 1) (\<lambda>conv2.
     bind (get_normalization_default norm_type (Some out_channels)) (\<lambda>norm.
     Inr \<lparr>rb_norm_type = norm_type, rb_nonlinearity = nonlinearity,
          rb_conv1 = conv1, rb_conv2 = conv2, rb_norm = norm\<rparr>))))"

text \<open>The declared defaults of \<^verbatim>\<open>ResBlock.__init__\<close>.\<close>

definition ResBlock_default_norm_type :: string where
  "ResBlock_default_norm_type = ''batch_norm''"

definition ResBlock_default_act_fn :: "string option" where
  "ResBlock_default_act_fn = Some ''relu6''"

record SanaMultiscaleAttentionProjection =
  proj_in :: Conv2d
  proj_out :: Conv2d

definition SanaMultiscaleAttentionProjection_init ::
  "int \<Rightarrow> int \<Rightarrow> int \<Rightarrow> error + SanaMultiscaleAttentionProjection" where
  "SanaMultiscaleAttentionProjection_init in_channels num_attention_heads kernel_size =
     (let channels = 3 * in_channels in
      bind (Conv2d_init channels channels kernel_size 1 (kernel_size div 2) channels) (\<lambda>p_in.
      bind (Conv2d_init channels channels 1 1 0 (3 * num_attention_heads)) (\<lambda>p_out.
      Inr \<lparr>proj_in = p_in, proj_out = p_out\<rparr>)))"

text \<open>
  \<^verbatim>\<open>SanaMultiscaleLinearAttention.__init__\<close>. \<^verbatim>\<open>mult\<close> is left at \<^verbatim>\<open>1.0\<close> by its
  only caller, so \<^verbatim>\<open>int(in_channels // attention_head_dim * mult)\<close> is the floor
  quotient; it raises ZeroDivisionError for a head dimension of zero.
\<close>

record SanaMultiscaleLinearAttention =
  attn_eps :: real
  attention_head_dim :: int
  attn_norm_type :: string
  residual_connection :: bool
  to_q :: Linear
  to_k :: Linear
  to_v :: Linear
  to_qkv_multiscale :: "SanaMultiscaleAttentionProjection list"
  to_out :: Linear
  norm_out :: normalization

definition SanaMultiscaleLinearAttention_init ::
  "int \<Rightarrow> int \<Rightarrow> int option \<Rightarrow> int \<Rightarrow> string \<Rightarrow> int list \<Rightarrow> real \<Rightarrow> bool
   \<Rightarrow> error + SanaMultiscaleLinearAttention" where
  "SanaMultiscaleLinearAttention_init in_channels out_channels num_attention_heads head_dim
       norm_type kernel_sizes eps residual =
     bind (case num_attention_heads of
             None \<Rightarrow> if head_dim = 0 then Inl ZeroDivisionError else Inr (in_channels div head_dim)
           | Some n \<Rightarrow> Inr n) (\<lambda>heads.
     let inner_dim = heads * head_dim in
     bind (Linear_init in_channels inner_dim) (\<lambda>q.
     bind (Linear_init in_channels inner_dim) (\<lambda>k.
     bind (Linear_init in_channels inner_dim) (\<lambda>v.
     bind (map_result (\<lambda>kernel_size. SanaMultiscaleAttentionProjection_init inner_dim heads kernel_size)
             kernel_sizes) (\<lambda>multiscale.
     bind (Linear_init (inner_dim * (1 + int (length kernel_sizes))) out_channels) (\<lambda>out.
     bind (get_normalization_default norm_type (Some out_channels)) (\<lambda>norm.
     Inr \<lparr>attn_eps = eps, attention_head_dim = head_dim, attn_norm_type = norm_type,
          residual_connection = residual, to_q = q, to_k = k, to_v = v,
          to_qkv_multiscale = multiscale, to_out = out, norm_out = norm\<rparr>)))))))"

record GLUMBConv =
  conv_inverted :: Conv2d
  conv_depth :: Conv2d
  conv_point :: Conv2d
  glu_norm :: RMSNorm

definition GLUMBConv_init :: "int \<Rightarrow> int \<Rightarrow> error + GLUMBConv" where
  "GLUMBConv_init in_channels out_channels =
     (let hidden_channels = 4 * in_channels in
      bind (Conv2d_init in_channels (hidden_channels * 2) 1 1 0 1) (\<lambda>inverted.
      bind (Conv2d_init (hidden_channels * 2) (hidden_channels * 2) 3 1 1 (hidden_channels * 2)) (\<lambda>depth.
      bind (Conv2d_init hidden_channels out_channels 1 1 0 1) (\<lambda>point.
      bind (RMSNorm_init (Some out_channels) (1 / 100000) True True) (\<lambda>norm.
      Inr \<lparr>conv_inverted = inverted, conv_depth = depth, conv_point = point,
           glu_norm = norm\<rparr>)))))"

record EfficientViTBlock =
  evb_attn :: SanaMultiscaleLinearAttention
  evb_conv_out :: GLUMBConv

definition EfficientViTBlock_init ::
  "int \<Rightarrow> int \<Rightarrow> int list \<Rightarrow> string \<Rightarrow> error + EfficientViTBlock" where
  "EfficientViTBlock_init in_channels head_dim qkv_multiscales norm_type =
     bind (SanaMultiscaleLinearAttention_init in_channels in_channels None head_dim norm_type
             qkv_multiscales (1 / 10 ^ 15) True) (\<lambda>attn.
     bind (GLUMBConv_init in_channels in_channels) (\<lambda>conv_out.
     Inr \<lparr>evb_attn = attn, evb_conv_out = conv_out\<rparr>))"

datatype block = ResBlock_block ResBlock | EfficientViTBlock_block EfficientViTBlock

definition get_block ::
  "string \<Rightarrow> int \<Rightarrow> int \<Rightarrow> int \<Rightarrow> string \<Rightarrow> string \<Rightarrow> int list \<Rightarrow> error + block" where
  "get_block block_type in_channels out_channels head_dim norm_type act_fn qkv_mutliscales =
     (if block_type = ''ResBlock'' then
        bind (ResBlock_init in_channels out_channels norm_type (Some act_fn))
          (\<lambda>b. Inr (ResBlock_block b))
      else if block_type = ''EfficientViTBlock'' then
        bind (EfficientViTBlock_init in_channels head_dim qkv_mutliscales norm_type)
          (\<lambda>b. Inr (EfficientViTBlock_block b))
      else Inl ValueError)"

text \<open>
  \<^verbatim>\<open>DCDownBlock2d.__init__\<close>: the group size is computed first (ZeroDivisionError
  for zero output channels), then the one assertion, then the convolution.
\<close>

record DCDownBlock2d =
  down_downsample :: bool
  down_factor :: int
  down_stride :: int
  down_group_size :: int
  down_shortcut :: bool
  down_conv :: Conv2d

definition DCDownBlock2d_init :: "int \<Rightarrow> int \<Rightarrow> bool \<Rightarrow> bool \<Rightarrow> error + DCDownBlock2d" where
  "DCDownBlock2d_init in_channels out_channels downsample shortcut =
     (let factor = 2; stride = (if downsample then 1 else 2) in
      if out_channels = 0 then Inl ZeroDivisionError
      else
        let group_size = in_channels * factor ^ 2 div out_channels;
            out_ratio = factor ^ 2 in
        if downsample \<and> out_channels mod out_ratio \<noteq> 0 then Inl AssertionError
        else
          let out_channels = (if downsample then out_channels div out_ratio else out_channels) in
          bind (Conv2d_init in_channels out_channels 3 stride 1 1) (\<lambda>conv.
          Inr \<lparr>down_downsample = downsample, down_factor = factor, down_stride = stride,
               down_group_size = group_size, down_shortcut = shortcut, down_conv = conv\<rparr>))"

text \<open>\<^verbatim>\<open>DCUpBlock2d.__init__\<close> has no assertion.\<close>

record DCUpBlock2d =
  up_interpolate :: bool
  up_interpolation_mode :: string
  up_shortcut :: bool
  up_factor :: int
  up_repeats :: int
  up_conv :: Conv2d

definition DCUpBlock2d_init ::
  "int \<Rightarrow> int \<Rightarrow> bool \<Rightarrow> bool \<Rightarrow> string \<Rightarrow> error + DCUpBlock2d" where
  "DCUpBlock2d_init in_channels out_channels interpolate shortcut interpolation_mode =
     (let factor = 2 in
      if in_channels = 0 then Inl ZeroDivisionError
      else
        let repeats = out_channels * factor ^ 2 div in_channels;
            out_ratio = factor ^ 2;
            out_channels = (if \<not> interpolate then out_channels * out_ratio else out_channels) in
        bind (Conv2d_init in_channels out_channels 3 1 1 1) (\<lambda>conv.
        Inr \<lparr>up_interpolate = interpolate, up_interpolation_mode = interpolation_mode,
             up_shortcut = shortcut, up_factor = factor, up_repeats = repeats,
             up_conv = conv\<rparr>))"

text \<open>
  \<^verbatim>\<open>Encoder.__init__\<close>. \<open>block_type\<close> is one name for all stages or one name per
  stage; the stage loop runs over \<^verbatim>\<open>enumerate(zip(block_out_channels,
  layers_per_block))\<close>. A stage gets a down-sampling block when it is not the last
  and has at least one layer; the input projection is a down-sampling block when
  the first stage has none.
\<close>

datatype block_types = One_type string | Per_stage "string list"

record Encoder_args =
  arg_in_channels :: int
  arg_latent_channels :: int
  arg_attention_head_dim :: int
  arg_block_type :: block_types
  arg_block_out_channels :: "int list"
  arg_layers_per_block :: "int list"
  arg_qkv_multiscales :: "int list list"
  arg_downsample_block_type :: string
  arg_out_shortcut :: bool

datatype input_layer = Conv_in Conv2d | Down_in DCDownBlock2d

datatype layer = Block_layer block | Down_layer DCDownBlock2d

record Encoder =
  enc_conv_in :: input_layer
  enc_down_blocks :: "layer list list"
  enc_conv_out :: Conv2d
  enc_out_shortcut :: bool
  enc_out_shortcut_average_group_size :: "int option"

definition Encoder_stage_init ::
  "Encoder_args \<Rightarrow> string list \<Rightarrow> nat \<times> int \<times> int \<Rightarrow> error + layer list" where
  "Encoder_stage_init a block_type st =
     (case st of (i, out_channel, num_layers) \<Rightarrow>
        bind (map_result
                (\<lambda>_. bind (py_index block_type i) (\<lambda>bt.
                      bind (py_index (arg_qkv_multiscales a) i) (\<lambda>kernel_sizes.
                      get_block bt out_channel out_channel (arg_attention_head_dim a)
                        ''rms_norm'' ''silu'' kernel_sizes)))
                (replicate (nat num_layers) ())) (\<lambda>blocks.
        if int i < int (length (arg_block_out_channels a)) - 1 \<and> num_layers > 0 then
          bind (py_index (arg_block_out_channels a) (i + 1)) (\<lambda>next_channels.
          bind (DCDownBlock2d_init out_channel next_channels
                  (arg_downsample_block_type a = ''pixel_unshuffle'') True) (\<lambda>down.
          Inr (map Block_layer blocks @ [Down_layer down])))
        else Inr (map Block_layer blocks)))"

definition Encoder_init :: "Encoder_args \<Rightarrow> error + Encoder" where
  "Encoder_init a =
     (let num_blocks = length (arg_block_out_channels a);
          block_type = (case arg_block_type a of
                          One_type t \<Rightarrow> replicate num_blocks t
                        | Per_stage ts \<Rightarrow> ts) in
      bind (py_index (arg_layers_per_block a) 0) (\<lambda>layers0.
      bind (if layers0 > 0 then
              bind (py_index (arg_block_out_channels a) 0) (\<lambda>c.
              bind (Conv2d_init (arg_in_channels a) c 3 1 1 1) (\<lambda>conv. Inr (Conv_in conv)))
            else
              bind (py_index (arg_block_out_channels a) 1) (\<lambda>c.
              bind (DCDownBlock2d_init (arg_in_channels a) c
                      (arg_downsample_block_type a = ''pixel_unshuffle'') False) (\<lambda>down.
              Inr (Down_in down)))) (\<lambda>conv_in.
      bind (map_result (Encoder_stage_init a block_type)
              (enumerate 0 (zip (arg_block_out_channels a) (arg_layers_per_block a)))) (\<lambda>down_blocks.
      bind (py_last (arg_block_out_channels a)) (\<lambda>last_channels.
      bind (Conv2d_init last_channels (arg_latent_channels a) 3 1 1 1) (\<lambda>conv_out.
      bind (if arg_out_shortcut a then
              (if arg_latent_channels a = 0 then Inl ZeroDivisionError
               else Inr (Some (last_channels div arg_latent_channels a)))
            else Inr None) (\<lambda>group_size.
      Inr \<lparr>enc_conv_in = conv_in, enc_down_blocks = down_blocks, enc_conv_out = conv_out,
           enc_out_shortcut = arg_out_shortcut a,
           enc_out_shortcut_average_group_size = group_size\<rparr>)))))))"

section \<open>Shapes of the forward passes\<close>

text \<open>
  For each module, the shape of what its \<^verbatim>\<open>forward\<close> returns on an input of a given
  shape, or the error a shape check raises on the way. Activations keep the shape.
  \<^verbatim>\<open>nn.Conv2d\<close> needs the input's channels to be its own, at least one output
  channel per group, a positive stride and kernel, and a padded input no smaller than
  the kernel; the batch may be empty.
\<close>

definition conv_out_size :: "Conv2d \<Rightarrow> nat \<Rightarrow> nat" where
  "conv_out_size conv n =
     nat ((int n + 2 * conv_padding conv - conv_kernel_size conv) div conv_stride conv + 1)"

definition Conv2d_forward_shape :: "Conv2d \<Rightarrow> nat list \<Rightarrow> error + nat list" where
  "Conv2d_forward_shape conv s =
     (case dims4 s of
        None \<Rightarrow> Inl RuntimeError
      | Some (b, c, h, w) \<Rightarrow>
          if int c \<noteq> conv_in_channels conv then Inl RuntimeError
          else if conv_out_channels conv < conv_groups conv then Inl RuntimeError
          else if conv_stride conv \<le> 0 \<or> conv_padding conv < 0 \<or> conv_kernel_size conv \<le> 0
            then Inl RuntimeError
          else if int h + 2 * conv_padding conv < conv_kernel_size conv
                  \<or> int w + 2 * conv_padding conv < conv_kernel_size conv
            then Inl RuntimeError
          else Inr [b, nat (conv_out_channels conv), conv_out_size conv h, conv_out_size conv w])"

definition Linear_forward_shape :: "Linear \<Rightarrow> nat list \<Rightarrow> error + nat list" where
  "Linear_forward_shape l s =
     (if s = [] then Inl RuntimeError
      else if int (last s) \<noteq> in_features l then Inl RuntimeError
      else Inr (butlast s @ [nat (out_features l)]))"

text \<open>
  \<^verbatim>\<open>RMSNorm.forward\<close> multiplies by the weight and adds the bias, both of shape
  \<open>[dim]\<close>, with broadcasting. \<^verbatim>\<open>nn.LayerNorm\<close> needs the last dimension to be its
  size; \<^verbatim>\<open>nn.BatchNorm2d\<close>, taken in inference mode, needs rank four and its number
  of channels.
\<close>

definition RMSNorm_forward_shape :: "RMSNorm \<Rightarrow> nat list \<Rightarrow> error + nat list" where
  "RMSNorm_forward_shape self s =
     (case rms_weight self of
        None \<Rightarrow> Inr s
      | Some w \<Rightarrow>
          bind (broadcast_result s [length w]) (\<lambda>s.
          case rms_bias self of
            None \<Rightarrow> Inr s
          | Some b \<Rightarrow> broadcast_result s [length b]))"

definition normalization_forward_shape :: "normalization \<Rightarrow> nat list \<Rightarrow> error + nat list" where
  "normalization_forward_shape self s =
     (case self of
        RMSNorm_module n \<Rightarrow> RMSNorm_forward_shape n s
      | LayerNorm d eps affine bias \<Rightarrow>
          if s \<noteq> [] \<and> int (last s) = d then Inr s else Inl RuntimeError
      | BatchNorm2d d eps affine \<Rightarrow>
          (case dims4 s of
             None \<Rightarrow> Inl ValueError
           | Some (b, c, h, w) \<Rightarrow> if int c = d then Inr s else Inl RuntimeError))"

text \<open>
  The normalization as the blocks call it: over the channels, moved to the last
  dimension and back, for \<^verbatim>\<open>rms_norm\<close>; on the tensor as it is otherwise.
\<close>

definition norm_over_channels_shape ::
  "string \<Rightarrow> normalization \<Rightarrow> nat list \<Rightarrow> error + nat list" where
  "norm_over_channels_shape norm_type self s =
     (if norm_type = ''rms_norm'' then
        bind (movedim_1_last s) (\<lambda>s.
        bind (normalization_forward_shape self s) movedim_last_1)
      else normalization_forward_shape self s)"

definition ResBlock_forward_shape :: "ResBlock \<Rightarrow> nat list \<Rightarrow> error + nat list" where
  "ResBlock_forward_shape blk residual =
     bind (Conv2d_forward_shape (rb_conv1 blk) residual) (\<lambda>hs.
     bind (Conv2d_forward_shape (rb_conv2 blk) hs) (\<lambda>hs.
     bind (norm_over_channels_shape (rb_norm_type blk) (rb_norm blk) hs) (\<lambda>hs.
     broadcast_result hs residual)))"

definition SanaMultiscaleAttentionProjection_forward_shape ::
  "SanaMultiscaleAttentionProjection \<Rightarrow> nat list \<Rightarrow> error + nat list" where
  "SanaMultiscaleAttentionProjection_forward_shape p s =
     bind (Conv2d_forward_shape (proj_in p) s) (Conv2d_forward_shape (proj_out p))"

text \<open>The two attention formulas, shape by shape.\<close>

definition apply_linear_attention_shape ::
  "nat list \<Rightarrow> nat list \<Rightarrow> nat list \<Rightarrow> error + nat list" where
  "apply_linear_attention_shape query key v =
     bind (pad_row_shape v) (\<lambda>v.
     bind (transpose_last_shape key) (\<lambda>key_t.
     bind (matmul_shape v key_t) (\<lambda>scores.
     bind (matmul_shape scores query) (\<lambda>hidden_states.
     bind (rows_but_last_shape hidden_states) (\<lambda>numerator.
     bind (row_last_shape hidden_states) (\<lambda>bias_row.
     broadcast_result numerator bias_row))))))"

definition apply_quadratic_attention_shape ::
  "nat list \<Rightarrow> nat list \<Rightarrow> nat list \<Rightarrow> error + nat list" where
  "apply_quadratic_attention_shape query key v =
     bind (transpose_last_shape key) (\<lambda>key_t.
     bind (matmul_shape key_t query) (\<lambda>scores.
     bind (sum_dim2_keepdim_shape scores) (\<lambda>total_row.
     bind (broadcast_result scores total_row) (\<lambda>scores.
     matmul_shape v scores))))"

text \<open>
  \<^verbatim>\<open>SanaMultiscaleAttnProcessor2_0.__call__\<close>. Lines 180 to 184 compute the flag from
  the spatial size and the head dimension; unpacking the size raises ValueError unless
  the rank is four.
\<close>

definition use_linear_attention :: "int \<Rightarrow> nat \<Rightarrow> nat \<Rightarrow> bool" where
  "use_linear_attention head_dim height width =
     (if int (height * width) > head_dim then True else False)"

definition SanaMultiscaleAttnProcessor2_0_call_shape ::
  "SanaMultiscaleLinearAttention \<Rightarrow> nat list \<Rightarrow> error + nat list" where
  "SanaMultiscaleAttnProcessor2_0_call_shape attn residual =
     (case dims4 residual of
        None \<Rightarrow> Inl ValueError
      | Some (batch_size, channels, height, width) \<Rightarrow>
          bind (movedim_1_last residual) (\<lambda>hs.
          bind (Linear_forward_shape (to_q attn) hs) (\<lambda>query.
          bind (Linear_forward_shape (to_k attn) hs) (\<lambda>key.
          bind (Linear_forward_shape (to_v attn) hs) (\<lambda>v.
          bind (cat_shape 3 [query, key, v]) (\<lambda>hs.
          bind (movedim_last_1 hs) (\<lambda>hs.
          bind (map_result (\<lambda>block. SanaMultiscaleAttentionProjection_forward_shape block hs)
                  (to_qkv_multiscale attn)) (\<lambda>scales.
          bind (cat_shape 1 (hs # scales)) (\<lambda>hs.
          bind (infer_dim (prod_list hs)
                  (int batch_size * (3 * attention_head_dim attn) * int (height * width))) (\<lambda>groups.
          bind (chunk3_dim2 [batch_size, groups, nat (3 * attention_head_dim attn), height * width])
            (\<lambda>(query, key, v).
          bind (if use_linear_attention (attention_head_dim attn) height width
                then apply_linear_attention_shape query key v
                else apply_quadratic_attention_shape query key v) (\<lambda>hs.
          bind (infer_dim (prod_list hs) (int batch_size * int height * int width)) (\<lambda>c.
          bind (movedim_1_last [batch_size, c, height, width]) (\<lambda>hs.
          bind (Linear_forward_shape (to_out attn) hs) (\<lambda>hs.
          bind (movedim_last_1 hs) (\<lambda>hs.
          bind (norm_over_channels_shape (attn_norm_type attn) (norm_out attn) hs) (\<lambda>hs.
          if residual_connection attn then broadcast_result hs residual else Inr hs)))))))))))))))))"

definition GLUMBConv_forward_shape :: "GLUMBConv \<Rightarrow> nat list \<Rightarrow> error + nat list" where
  "GLUMBConv_forward_shape blk residual =
     bind (Conv2d_forward_shape (conv_inverted blk) residual) (\<lambda>hs.
     bind (Conv2d_forward_shape (conv_depth blk) hs) (\<lambda>hs.
     bind (chunk2_dim1 hs) (\<lambda>(hs, gate).
     bind (broadcast_result hs gate) (\<lambda>hs.
     bind (Conv2d_forward_shape (conv_point blk) hs) (\<lambda>hs.
     bind (movedim_1_last hs) (\<lambda>hs.
     bind (RMSNorm_forward_shape (glu_norm blk) hs) (\<lambda>hs.
     bind (movedim_last_1 hs) (\<lambda>hs.
     broadcast_result hs residual))))))))"

definition EfficientViTBlock_forward_shape :: "EfficientViTBlock \<Rightarrow> nat list \<Rightarrow> error + nat list" where
  "EfficientViTBlock_forward_shape blk x =
     bind (SanaMultiscaleAttnProcessor2_0_call_shape (evb_attn blk) x)
       (GLUMBConv_forward_shape (evb_conv_out blk))"

definition block_forward_shape :: "block \<Rightarrow> nat list \<Rightarrow> error + nat list" where
  "block_forward_shape blk s =
     (case blk of
        ResBlock_block b \<Rightarrow> ResBlock_forward_shape b s
      | EfficientViTBlock_block b \<Rightarrow> EfficientViTBlock_forward_shape b s)"

text \<open>
  \<^verbatim>\<open>DCDownBlock2d.forward\<close>: the convolution branch, and the parameter-free shortcut
  (pixel-unshuffle, group the channels, average each group) added to it.
\<close>

definition DCDownBlock2d_shortcut_shape :: "DCDownBlock2d \<Rightarrow> nat list \<Rightarrow> error + nat list" where
  "DCDownBlock2d_shortcut_shape blk hidden_states =
     bind (pixel_unshuffle_shape hidden_states (down_factor blk)) (\<lambda>y.
     bind (unflatten_dim1_shape y (down_group_size blk)) mean_dim2_shape)"

definition DCDownBlock2d_forward_shape :: "DCDownBlock2d \<Rightarrow> nat list \<Rightarrow> error + nat list" where
  "DCDownBlock2d_forward_shape blk hidden_states =
     bind (Conv2d_forward_shape (down_conv blk) hidden_states) (\<lambda>x.
     bind (if down_downsample blk then pixel_unshuffle_shape x (down_factor blk) else Inr x) (\<lambda>x.
     if down_shortcut blk then
       bind (DCDownBlock2d_shortcut_shape blk hidden_states) (\<lambda>y. broadcast_result x y)
     else Inr x))"

definition layer_forward_shape :: "layer \<Rightarrow> nat list \<Rightarrow> error + nat list" where
  "layer_forward_shape l s =
     (case l of
        Block_layer b \<Rightarrow> block_forward_shape b s
      | Down_layer d \<Rightarrow> DCDownBlock2d_forward_shape d s)"

definition input_layer_forward_shape :: "input_layer \<Rightarrow> nat list \<Rightarrow> error + nat list" where
  "input_layer_forward_shape l s =
     (case l of
        Conv_in c \<Rightarrow> Conv2d_forward_shape c s
      | Down_in d \<Rightarrow> DCDownBlock2d_forward_shape d s)"

text \<open>
  \<^verbatim>\<open>Encoder.forward\<close>. With the outer shortcut, the grouped average is computed
  first, then the output projection, then their sum. Reading the group size when the
  shortcut is on and the attribute was never set would raise AttributeError; the
  constructor always sets it in that case.
\<close>

definition Encoder_forward_shape :: "Encoder \<Rightarrow> nat list \<Rightarrow> error + nat list" where
  "Encoder_forward_shape enc hidden_states =
     bind (input_layer_forward_shape (enc_conv_in enc) hidden_states) (\<lambda>hs.
     bind (fold_result (fold_result layer_forward_shape) (enc_down_blocks enc) hs) (\<lambda>hs.
     if enc_out_shortcut enc then
       (case enc_out_shortcut_average_group_size enc of
          None \<Rightarrow> Inl AttributeError
        | Some g \<Rightarrow>
            bind (unflatten_dim1_shape hs g) (\<lambda>x.
            bind (mean_dim2_shape x) (\<lambda>x.
            bind (Conv2d_forward_shape (enc_conv_out enc) hs) (\<lambda>hs.
            broadcast_result hs x))))
     else Conv2d_forward_shape (enc_conv_out enc) hs))"

section \<open>Tensors\<close>

text \<open>
  A tensor is its shape and its elements, read by a list of indices (one per
  dimension). Only the elements at indices within the shape are meaningful. An
  operation on tensors has the shape its shape rule gives.
\<close>

record tensor =
  shape :: "nat list"
  elem :: "nat list \<Rightarrow> real"

definition with_shape :: "error + nat list \<Rightarrow> (nat list \<Rightarrow> real) \<Rightarrow> error + tensor" where
  "with_shape r f = bind r (\<lambda>s. Inr \<lparr>shape = s, elem = f\<rparr>)"

text \<open>
  The index an operand is read at for an index of the broadcast result: its own
  trailing dimensions, and zero along a dimension of size one.
\<close>

definition broadcast_index :: "nat list \<Rightarrow> nat list \<Rightarrow> nat list" where
  "broadcast_index s idx =
     map (\<lambda>(n, i). if n = 1 then 0 else i) (zip s (drop (length idx - length s) idx))"

definition broadcast_op :: "(real \<Rightarrow> real \<Rightarrow> real) \<Rightarrow> tensor \<Rightarrow> tensor \<Rightarrow> error + tensor" where
  "broadcast_op f x y =
     with_shape (broadcast_result (shape x) (shape y))
       (\<lambda>idx. f (elem x (broadcast_index (shape x) idx)) (elem y (broadcast_index (shape y) idx)))"

definition add_scalar :: "tensor \<Rightarrow> real \<Rightarrow> tensor" where
  "add_scalar x c = \<lparr>shape = shape x, elem = (\<lambda>idx. elem x idx + c)\<rparr>"

text \<open>
  \<^verbatim>\<open>x.split(1)\<close> of a tensor of rank at least one (sizes \<open>n # rest\<close>): the \<open>n\<close>
  slices of size one along dimension 0, in order; of an empty batch, the tensor itself.
\<close>

definition split_1 :: "tensor \<Rightarrow> nat \<Rightarrow> nat list \<Rightarrow> tensor list" where
  "split_1 x n rest =
     (if n = 0 then [x]
      else map (\<lambda>i. \<lparr>shape = 1 # rest,
                     elem = (\<lambda>idx. case idx of [] \<Rightarrow> 0 | b # r \<Rightarrow> elem x ((i + b) # r))\<rparr>)
             [0..<n])"

fun cat_at :: "tensor list \<Rightarrow> nat list \<Rightarrow> real" where
  "cat_at [] idx = 0"
| "cat_at (t # ts) [] = 0"
| "cat_at (t # ts) (b # r) =
     (if b < hd (shape t) then elem t (b # r) else cat_at ts ((b - hd (shape t)) # r))"

text \<open>\<^verbatim>\<open>torch.cat\<close> of a list of tensors, along dimension 0.\<close>

definition cat :: "tensor list \<Rightarrow> error + tensor" where
  "cat ts =
     with_shape (cat_shape 0 (map shape ts)) (cat_at (filter (\<lambda>t. shape t \<noteq> [0]) ts))"

text \<open>
  \<^verbatim>\<open>F.pad(value, (0, 0, 0, 1), mode="constant", value=1)\<close>: one more row, of ones,
  after the last row.
\<close>

definition pad_ones_row :: "tensor \<Rightarrow> error + tensor" where
  "pad_ones_row x =
     with_shape (pad_row_shape (shape x))
       (\<lambda>idx. case dims4 idx of
                 None \<Rightarrow> 0
               | Some (bi, hi, i, j) \<Rightarrow> if i < shape x ! 2 then elem x idx else 1)"

definition transpose_last :: "tensor \<Rightarrow> error + tensor" where
  "transpose_last x =
     with_shape (transpose_last_shape (shape x))
       (\<lambda>idx. case dims4 idx of
                 None \<Rightarrow> 0
               | Some (bi, hi, i, j) \<Rightarrow> elem x [bi, hi, j, i])"

definition matmul :: "tensor \<Rightarrow> tensor \<Rightarrow> error + tensor" where
  "matmul x y =
     with_shape (matmul_shape (shape x) (shape y))
       (\<lambda>idx. case dims4 idx of
                 None \<Rightarrow> 0
               | Some (bi, hi, i, j) \<Rightarrow>
                   (\<Sum>k<shape x ! 3.
                      elem x (broadcast_index (take 2 (shape x)) [bi, hi] @ [i, k])
                      * elem y (broadcast_index (take 2 (shape y)) [bi, hi] @ [k, j])))"

definition rows_but_last :: "tensor \<Rightarrow> error + tensor" where
  "rows_but_last x = with_shape (rows_but_last_shape (shape x)) (elem x)"

definition row_last :: "tensor \<Rightarrow> error + tensor" where
  "row_last x =
     with_shape (row_last_shape (shape x))
       (\<lambda>idx. case dims4 idx of
                 None \<Rightarrow> 0
               | Some (bi, hi, i, j) \<Rightarrow> elem x [bi, hi, shape x ! 2 - 1 + i, j])"

definition sum_dim2_keepdim :: "tensor \<Rightarrow> error + tensor" where
  "sum_dim2_keepdim x =
     with_shape (sum_dim2_keepdim_shape (shape x))
       (\<lambda>idx. case dims4 idx of
                 None \<Rightarrow> 0
               | Some (bi, hi, i, j) \<Rightarrow> (\<Sum>k<shape x ! 2. elem x [bi, hi, k, j]))"

text \<open>
  \<^verbatim>\<open>F.pixel_unshuffle\<close>: output channel \<open>c * r\<^sup>2 + i * r + j\<close> at \<open>(h, w)\<close> is input
  channel \<open>c\<close> at \<open>(h * r + i, w * r + j)\<close>; a tensor of no elements is returned as it
  is. \<^verbatim>\<open>unflatten(1, (-1, g))\<close> reads channel \<open>q * g + s\<close> at \<open>(q, s)\<close>;
  \<^verbatim>\<open>mean(dim=2)\<close> averages over the \<open>g\<close> entries of dimension 2.
\<close>

definition pixel_unshuffle :: "tensor \<Rightarrow> int \<Rightarrow> error + tensor" where
  "pixel_unshuffle x r =
     with_shape (pixel_unshuffle_shape (shape x) r)
       (if 0 \<in> set (shape x) then elem x
        else (\<lambda>idx. case dims4 idx of
                 None \<Rightarrow> 0
               | Some (b, ch, h, w) \<Rightarrow>
                   elem x [b, ch div (nat r * nat r),
                           h * nat r + (ch div nat r) mod nat r,
                           w * nat r + ch mod nat r]))"

definition unflatten_dim1 :: "tensor \<Rightarrow> int \<Rightarrow> error + tensor" where
  "unflatten_dim1 x g =
     with_shape (unflatten_dim1_shape (shape x) g)
       (\<lambda>idx. case idx of
                 b # q # s # rest \<Rightarrow> elem x (b # (q * nat g + s) # rest)
               | _ \<Rightarrow> 0)"

definition mean_dim2 :: "tensor \<Rightarrow> error + tensor" where
  "mean_dim2 x =
     with_shape (mean_dim2_shape (shape x))
       (\<lambda>idx. case idx of
                 a # b # rest \<Rightarrow>
                   (\<Sum>k<shape x ! 2. elem x (a # b # k # rest)) / real (shape x ! 2)
               | _ \<Rightarrow> 0)"

section \<open>The attention formulas and the processor on tensors\<close>

definition apply_linear_attention ::
  "SanaMultiscaleLinearAttention \<Rightarrow> tensor \<Rightarrow> tensor \<Rightarrow> tensor \<Rightarrow> error + tensor" where
  "apply_linear_attention self query key v =
     bind (pad_ones_row v) (\<lambda>v.
     bind (transpose_last key) (\<lambda>key_t.
     bind (matmul v key_t) (\<lambda>scores.
     bind (matmul scores query) (\<lambda>hidden_states.
     bind (rows_but_last hidden_states) (\<lambda>numerator.
     bind (row_last hidden_states) (\<lambda>bias_row.
     broadcast_op (/) numerator (add_scalar bias_row (attn_eps self))))))))"

definition apply_quadratic_attention ::
  "SanaMultiscaleLinearAttention \<Rightarrow> tensor \<Rightarrow> tensor \<Rightarrow> tensor \<Rightarrow> error + tensor" where
  "apply_quadratic_attention self query key v =
     bind (transpose_last key) (\<lambda>key_t.
     bind (matmul key_t query) (\<lambda>scores.
     bind (sum_dim2_keepdim scores) (\<lambda>total_row.
     bind (broadcast_op (/) scores (add_scalar total_row (attn_eps self))) (\<lambda>scores.
     matmul v scores))))"

text \<open>
  \<^verbatim>\<open>SanaMultiscaleAttnProcessor2_0.__call__\<close> on tensors. What the learned layers
  compute depends on their weights, so the two stages around the formula enter as
  functions: \<open>qkv\<close> is lines 191 to 212 (the three linear projections, the multiscale
  convolutions, the reshape to rank four, the split into query, key and value and the
  ReLU on query and key); \<open>project\<close> is lines 220 to 226 (the reshape back, the output
  projection and the normalization).
\<close>

definition SanaMultiscaleAttnProcessor2_0_call ::
  "(tensor \<Rightarrow> error + tensor \<times> tensor \<times> tensor) \<Rightarrow> (tensor \<Rightarrow> error + tensor)
   \<Rightarrow> SanaMultiscaleLinearAttention \<Rightarrow> tensor \<Rightarrow> error + tensor" where
  "SanaMultiscaleAttnProcessor2_0_call qkv project attn hidden_states =
     (case dims4 (shape hidden_states) of
        None \<Rightarrow> Inl ValueError
      | Some (batch_size, channels, height, width) \<Rightarrow>
          bind (qkv hidden_states) (\<lambda>(query, key, v).
          bind (if use_linear_attention (attention_head_dim attn) height width
                then apply_linear_attention attn query key v
                else apply_quadratic_attention attn query key v) (\<lambda>hs.
          bind (project hs) (\<lambda>hs.
          if residual_connection attn then broadcast_op (+) hs hidden_states else Inr hs))))"

text \<open>
  The same pass with one fixed formula in place of the branch, to say which formula
  a call applies.
\<close>

definition attention_pass ::
  "(SanaMultiscaleLinearAttention \<Rightarrow> tensor \<Rightarrow> tensor \<Rightarrow> tensor \<Rightarrow> error + tensor)
   \<Rightarrow> (tensor \<Rightarrow> error + tensor \<times> tensor \<times> tensor) \<Rightarrow> (tensor \<Rightarrow> error + tensor)
   \<Rightarrow> SanaMultiscaleLinearAttention \<Rightarrow> tensor \<Rightarrow> error + tensor" where
  "attention_pass formula qkv project attn hidden_states =
     bind (qkv hidden_states) (\<lambda>(query, key, v).
     bind (formula attn query key v) (\<lambda>hs.
     bind (project hs) (\<lambda>hs.
     if residual_connection attn then broadcast_op (+) hs hidden_states else Inr hs)))"

text \<open>
  The result the specification states for the linear formula, entry by entry:
  \<open>V K\<^sup>T Q\<close> divided by \<open>1\<^sup>T K\<^sup>T Q + eps\<close>, for \<open>d\<close> rows of query and key and
  \<open>N\<close> columns of key and value.
\<close>

definition VKtQ ::
  "tensor \<Rightarrow> tensor \<Rightarrow> tensor \<Rightarrow> nat \<Rightarrow> nat \<Rightarrow> nat \<Rightarrow> nat \<Rightarrow> nat \<Rightarrow> nat \<Rightarrow> real" where
  "VKtQ query key v d N b h i n =
     (\<Sum>j<d. (\<Sum>m<N. elem v [b, h, i, m] * elem key [b, h, j, m]) * elem query [b, h, j, n])"

definition ones_KtQ :: "tensor \<Rightarrow> tensor \<Rightarrow> nat \<Rightarrow> nat \<Rightarrow> nat \<Rightarrow> nat \<Rightarrow> nat \<Rightarrow> real" where
  "ones_KtQ query key d N b h n =
     (\<Sum>j<d. (\<Sum>m<N. 1 * elem key [b, h, j, m]) * elem query [b, h, j, n])"

definition renormalized ::
  "real \<Rightarrow> tensor \<Rightarrow> tensor \<Rightarrow> tensor \<Rightarrow> nat \<Rightarrow> nat \<Rightarrow> nat \<Rightarrow> nat \<Rightarrow> nat \<Rightarrow> nat \<Rightarrow> real" where
  "renormalized eps query key v d N b h i n =
     VKtQ query key v d N b h i n / (ones_KtQ query key d N b h n + eps)"

section \<open>RMSNorm on a vector\<close>

text \<open>
  \<^verbatim>\<open>RMSNorm.forward\<close> on one vector along the last dimension. Lines 95 and 96 are
  the normalization proper; the weight and the bias, when present, are multiplied and
  added with broadcasting. \<^verbatim>\<open>torch.rsqrt\<close> is \<open>1 / sqrt\<close>, meaningful for a positive
  argument.
\<close>

definition mean_list :: "real list \<Rightarrow> real" where
  "mean_list xs = sum_list xs / real (length xs)"

definition rsqrt :: "real \<Rightarrow> real" where
  "rsqrt x = 1 / sqrt x"

definition RMSNorm_normalize :: "real \<Rightarrow> real list \<Rightarrow> real list" where
  "RMSNorm_normalize eps hidden_states =
     (let variance = mean_list (map (\<lambda>x. x ^ 2) hidden_states) in
      map (\<lambda>x. x * rsqrt (variance + eps)) hidden_states)"

definition broadcast_vec ::
  "(real \<Rightarrow> real \<Rightarrow> real) \<Rightarrow> real list \<Rightarrow> real list \<Rightarrow> error + real list" where
  "broadcast_vec f xs ys =
     (case broadcast_dim (length xs) (length ys) of
        None \<Rightarrow> Inl RuntimeError
      | Some n \<Rightarrow>
          Inr (map (\<lambda>i. f (xs ! (if length xs = 1 then 0 else i))
                         (ys ! (if length ys = 1 then 0 else i))) [0..<n]))"

definition RMSNorm_forward :: "RMSNorm \<Rightarrow> real list \<Rightarrow> error + real list" where
  "RMSNorm_forward self hidden_states =
     (let hidden_states = RMSNorm_normalize (rms_eps self) hidden_states in
      case rms_weight self of
        None \<Rightarrow> Inr hidden_states
      | Some w \<Rightarrow>
          bind (broadcast_vec (*) hidden_states w) (\<lambda>hidden_states.
          case rms_bias self of
            None \<Rightarrow> Inr hidden_states
          | Some b \<Rightarrow> broadcast_vec (+) hidden_states b))"

section \<open>The shortcut of the down-sampling block on tensors\<close>

text \<open>Lines 406 to 408 of \<^verbatim>\<open>DCDownBlock2d.forward\<close>.\<close>

definition DCDownBlock2d_shortcut :: "DCDownBlock2d \<Rightarrow> tensor \<Rightarrow> error + tensor" where
  "DCDownBlock2d_shortcut blk hidden_states =
     bind (pixel_unshuffle hidden_states (down_factor blk)) (\<lambda>y.
     bind (unflatten_dim1 y (down_group_size blk)) mean_dim2)"

section \<open>AutoencoderDC\<close>

text \<open>
  The top-level module. The encoder and the decoder enter as the functions on tensors
  their forward passes compute. \<^verbatim>\<open>tiled_encode\<close>, \<^verbatim>\<open>tiled_decode\<close> and
  \<^verbatim>\<open>tile_latent_min_height/width\<close> are read by the source but defined nowhere in
  it: each is \<open>None\<close> while the attribute is absent (reading it raises AttributeError)
  and \<open>Some\<close> once a tiling collaborator has provided it. The tile minima are
  \<^verbatim>\<open>Optional[int]\<close>, the strides \<^verbatim>\<open>Optional[float]\<close>.
\<close>

record AutoencoderDC =
  encoder :: "tensor \<Rightarrow> error + tensor"
  decoder :: "tensor \<Rightarrow> error + tensor"
  use_slicing :: bool
  use_tiling :: bool
  tile_sample_min_height :: int
  tile_sample_min_width :: int
  tile_sample_stride_height :: real
  tile_sample_stride_width :: real
  tiled_encode :: "(tensor \<Rightarrow> error + tensor) option"
  tiled_decode :: "(tensor \<Rightarrow> error + tensor) option"
  tile_latent_min_height :: "int option"
  tile_latent_min_width :: "int option"

text \<open>The flags and tiling parameters \<^verbatim>\<open>AutoencoderDC.__init__\<close> sets.\<close>

definition AutoencoderDC_init ::
  "(tensor \<Rightarrow> error + tensor) \<Rightarrow> (tensor \<Rightarrow> error + tensor) \<Rightarrow> AutoencoderDC" where
  "AutoencoderDC_init enc dec =
     \<lparr>encoder = enc, decoder = dec, use_slicing = False, use_tiling = False,
      tile_sample_min_height = 512, tile_sample_min_width = 512,
      tile_sample_stride_height = 448, tile_sample_stride_width = 448,
      tiled_encode = None, tiled_decode = None,
      tile_latent_min_height = None, tile_latent_min_width = None\<rparr>"

text \<open>
  Python's \<^verbatim>\<open>a or b\<close> for an optional number \<open>a\<close>: \<^verbatim>\<open>None\<close> and zero are falsy.
\<close>

definition py_or :: "'a::zero option \<Rightarrow> 'a \<Rightarrow> 'a" where
  "py_or a b = (case a of None \<Rightarrow> b | Some v \<Rightarrow> if v = 0 then b else v)"

definition enable_tiling ::
  "AutoencoderDC \<Rightarrow> int option \<Rightarrow> int option \<Rightarrow> real option \<Rightarrow> real option \<Rightarrow> AutoencoderDC" where
  "enable_tiling self min_height min_width stride_height stride_width =
     self\<lparr>use_tiling := True,
          tile_sample_min_height := py_or min_height (tile_sample_min_height self),
          tile_sample_min_width := py_or min_width (tile_sample_min_width self),
          tile_sample_stride_height := py_or stride_height (tile_sample_stride_height self),
          tile_sample_stride_width := py_or stride_width (tile_sample_stride_width self)\<rparr>"

definition disable_tiling :: "AutoencoderDC \<Rightarrow> AutoencoderDC" where
  "disable_tiling self = self\<lparr>use_tiling := False\<rparr>"

definition enable_slicing :: "AutoencoderDC \<Rightarrow> AutoencoderDC" where
  "enable_slicing self = self\<lparr>use_slicing := True\<rparr>"

definition disable_slicing :: "AutoencoderDC \<Rightarrow> AutoencoderDC" where
  "disable_slicing self = self\<lparr>use_slicing := False\<rparr>"

text \<open>
  \<^verbatim>\<open>_encode\<close> and \<^verbatim>\<open>_decode\<close> (an Isabelle name cannot start with an underscore).
  Unpacking \<^verbatim>\<open>x.shape\<close> into four names raises ValueError for any other rank.
  \<^verbatim>\<open>and\<close> and \<^verbatim>\<open>or\<close> evaluate left to right and stop early, so an absent attribute
  is read only when tiling is enabled.
\<close>

definition private_encode :: "AutoencoderDC \<Rightarrow> tensor \<Rightarrow> error + tensor" where
  "private_encode self x =
     (case shape x of
        [batch_size, num_channels, height, width] \<Rightarrow>
          if use_tiling self
             \<and> (int width > tile_sample_min_width self \<or> int height > tile_sample_min_height self)
          then (case tiled_encode self of None \<Rightarrow> Inl AttributeError | Some f \<Rightarrow> f x)
          else encoder self x
      | _ \<Rightarrow> Inl ValueError)"

definition private_decode :: "AutoencoderDC \<Rightarrow> tensor \<Rightarrow> error + tensor" where
  "private_decode self z =
     (case shape z of
        [batch_size, num_channels, height, width] \<Rightarrow>
          if use_tiling self then
            (case tile_latent_min_width self of
               None \<Rightarrow> Inl AttributeError
             | Some min_width \<Rightarrow>
                 if int width > min_width then
                   (case tiled_decode self of None \<Rightarrow> Inl AttributeError | Some f \<Rightarrow> f z)
                 else
                   (case tile_latent_min_height self of
                      None \<Rightarrow> Inl AttributeError
                    | Some min_height \<Rightarrow>
                        if int height > min_height then
                          (case tiled_decode self of None \<Rightarrow> Inl AttributeError | Some f \<Rightarrow> f z)
                        else decoder self z))
          else decoder self z
      | _ \<Rightarrow> Inl ValueError)"

text \<open>
  \<^verbatim>\<open>.sample\<close> read on the \<^verbatim>\<open>torch.Tensor\<close> that \<^verbatim>\<open>_decode\<close> returns: a tensor has
  no such attribute.
\<close>

definition tensor_sample :: "tensor \<Rightarrow> error + tensor" where
  "tensor_sample t = Inl AttributeError"

text \<open>
  \<^verbatim>\<open>encode\<close> and \<^verbatim>\<open>decode\<close>. The batch size \<^verbatim>\<open>x.shape[0]\<close> is read only when
  slicing is enabled; on a tensor of rank zero it raises IndexError.
\<close>

definition encode :: "AutoencoderDC \<Rightarrow> tensor \<Rightarrow> error + tensor" where
  "encode self x =
     (if use_slicing self then
        (case shape x of
           [] \<Rightarrow> Inl IndexError
         | n # rest \<Rightarrow>
             if n > 1 then
               bind (map_result (\<lambda>x_slice. private_encode self x_slice) (split_1 x n rest)) cat
             else private_encode self x)
      else private_encode self x)"

definition decode :: "AutoencoderDC \<Rightarrow> tensor \<Rightarrow> error + tensor" where
  "decode self z =
     (if use_slicing self then
        (case shape z of
           [] \<Rightarrow> Inl IndexError
         | n # rest \<Rightarrow>
             if n > 1 then
               bind (map_result (\<lambda>z_slice. bind (private_decode self z_slice) tensor_sample)
                       (split_1 z n rest)) cat
             else private_decode self z)
      else private_decode self z)"

section \<open>Counting the down-sampling blocks\<close>

text \<open>
  The number of down-sampling blocks an encoder holds, and the number the constructor
  builds for given arguments: one for the input projection when the first stage has
  no layer, and one for every stage that is not the last and has at least one layer.
  \<open>keeps_shape\<close> and \<open>halves_shape\<close> say what a stage block and a down-sampling
  block do to the shape of a feature map when their forward pass returns; a
  down-sampling block halves a feature map that has a batch and a spatial extent.
\<close>

definition keeps_shape :: "block \<Rightarrow> bool" where
  "keeps_shape b =
     (\<forall>B C H W out. block_forward_shape b [B, C, H, W] = Inr out \<longrightarrow> out = [B, C, H, W])"

definition halves_shape :: "DCDownBlock2d \<Rightarrow> bool" where
  "halves_shape d =
     (\<forall>B C H W out. 0 < B \<and> 0 < H \<and> 0 < W \<and> even H \<and> even W
        \<and> DCDownBlock2d_forward_shape d [B, C, H, W] = Inr out
        \<longrightarrow> (\<exists>c. out = [B, c, H div 2, W div 2]))"

fun good_layer :: "layer \<Rightarrow> bool" where
  "good_layer (Block_layer b) = keeps_shape b"
| "good_layer (Down_layer d) = halves_shape d"

fun is_down :: "layer \<Rightarrow> bool" where
  "is_down (Down_layer d) = True"
| "is_down (Block_layer b) = False"

definition num_down_layers :: "layer list \<Rightarrow> nat" where
  "num_down_layers ls = length (filter is_down ls)"

definition Encoder_num_down :: "Encoder \<Rightarrow> nat" where
  "Encoder_num_down enc =
     (case enc_conv_in enc of Down_in d \<Rightarrow> 1 | Conv_in c \<Rightarrow> 0)
     + num_down_layers (concat (enc_down_blocks enc))"

definition num_down_blocks :: "Encoder_args \<Rightarrow> nat" where
  "num_down_blocks a =
     (case arg_layers_per_block a of [] \<Rightarrow> 0 | layers0 # _ \<Rightarrow> if layers0 > 0 then 0 else 1)
     + length (filter (\<lambda>(i, out_channel, num_layers).
                         int i < int (length (arg_block_out_channels a)) - 1 \<and> num_layers > 0)
                (enumerate 0 (zip (arg_block_out_channels a) (arg_layers_per_block a))))"

section \<open>Example values\<close>

text \<open>
  Concrete modules and inputs at which the properties below are evaluated: a model
  whose encoder and decoder return their input, small attention inputs, encoder
  configurations, and feature maps with and without elements.
\<close>

definition identity_model :: AutoencoderDC where
  "identity_model = AutoencoderDC_init (\<lambda>x. Inr x) (\<lambda>z. Inr z)"

definition sliced_model :: AutoencoderDC where
  "sliced_model = enable_slicing identity_model"

definition ones_batch :: tensor where
  "ones_batch = \<lparr>shape = [2, 1, 1, 1], elem = (\<lambda>idx. 1)\<rparr>"

definition example_attention :: SanaMultiscaleLinearAttention where
  "example_attention =
     \<lparr>attn_eps = 1, attention_head_dim = 2, attn_norm_type = ''rms_norm'',
      residual_connection = False,
      to_q = \<lparr>in_features = 2, out_features = 2\<rparr>,
      to_k = \<lparr>in_features = 2, out_features = 2\<rparr>,
      to_v = \<lparr>in_features = 2, out_features = 2\<rparr>,
      to_qkv_multiscale = [],
      to_out = \<lparr>in_features = 2, out_features = 2\<rparr>,
      norm_out = LayerNorm 2 1 False False\<rparr>"

definition example_qkv :: "tensor \<Rightarrow> error + tensor \<times> tensor \<times> tensor" where
  "example_qkv x = Inr (x, x, x)"

definition example_project :: "tensor \<Rightarrow> error + tensor" where
  "example_project x = Inr x"

definition example_query :: tensor where
  "example_query =
     \<lparr>shape = [1, 1, 2, 3],
      elem = (\<lambda>idx. case dims4 idx of None \<Rightarrow> 0 | Some (b, h, i, j) \<Rightarrow> real (i + j))\<rparr>"

definition example_key :: tensor where
  "example_key =
     \<lparr>shape = [1, 1, 2, 3],
      elem = (\<lambda>idx. case dims4 idx of None \<Rightarrow> 0 | Some (b, h, i, j) \<Rightarrow> real (i * j + 1))\<rparr>"

definition example_v :: tensor where
  "example_v =
     \<lparr>shape = [1, 1, 2, 3],
      elem = (\<lambda>idx. case dims4 idx of None \<Rightarrow> 0 | Some (b, h, i, j) \<Rightarrow> real (2 * i + j))\<rparr>"

definition example_small :: tensor where
  "example_small = \<lparr>shape = [1, 1, 1, 2], elem = (\<lambda>idx. 1)\<rparr>"

definition skipped_stage_args :: Encoder_args where
  "skipped_stage_args =
     \<lparr>arg_in_channels = 3, arg_latent_channels = 4, arg_attention_head_dim = 32,
      arg_block_type = One_type ''ResBlock'', arg_block_out_channels = [8, 16, 16],
      arg_layers_per_block = [1, 0, 1], arg_qkv_multiscales = [[], [], []],
      arg_downsample_block_type = ''pixel_unshuffle'', arg_out_shortcut = True\<rparr>"

definition two_stage_latent3_args :: Encoder_args where
  "two_stage_latent3_args =
     \<lparr>arg_in_channels = 3, arg_latent_channels = 3, arg_attention_head_dim = 32,
      arg_block_type = One_type ''ResBlock'', arg_block_out_channels = [8, 16],
      arg_layers_per_block = [1, 1], arg_qkv_multiscales = [[], []],
      arg_downsample_block_type = ''pixel_unshuffle'', arg_out_shortcut = True\<rparr>"

definition three_stage_args :: Encoder_args where
  "three_stage_args =
     \<lparr>arg_in_channels = 3, arg_latent_channels = 4, arg_attention_head_dim = 8,
      arg_block_type = Per_stage [''ResBlock'', ''ResBlock'', ''EfficientViTBlock''],
      arg_block_out_channels = [8, 16, 32],
      arg_layers_per_block = [1, 1, 1], arg_qkv_multiscales = [[], [], [5]],
      arg_downsample_block_type = ''pixel_unshuffle'', arg_out_shortcut = True\<rparr>"

definition no_layer_args :: Encoder_args where
  "no_layer_args =
     \<lparr>arg_in_channels = 3, arg_latent_channels = 4, arg_attention_head_dim = 32,
      arg_block_type = One_type ''ResBlock'', arg_block_out_channels = [8, 16, 4],
      arg_layers_per_block = [0, 0, 0], arg_qkv_multiscales = [[], [], []],
      arg_downsample_block_type = ''pixel_unshuffle'', arg_out_shortcut = True\<rparr>"

definition constant_input :: tensor where
  "constant_input = \<lparr>shape = [1, 2, 2, 2], elem = (\<lambda>idx. 5)\<rparr>"

definition empty_input :: "nat \<Rightarrow> tensor" where
  "empty_input channels = \<lparr>shape = [0, channels, 2, 2], elem = (\<lambda>idx. 5)\<rparr>"

section \<open>Properties\<close>

lemma bind_Inl [simp]: "bind (Inl e) f = Inl e"
  by (simp add: bind_def)

lemma bind_Inr [simp]: "bind (Inr v) f = f v"
  by (simp add: bind_def)

lemma bind_eq_Inr: "bind m f = Inr y \<longleftrightarrow> (\<exists>v. m = Inr v \<and> f v = Inr y)"
  by (cases m) simp_all

lemma with_shape_simps [simp]:
  "with_shape (Inr s) f = Inr \<lparr>shape = s, elem = f\<rparr>"
  "with_shape (Inl e) f = Inl e"
  by (simp_all add: with_shape_def)

lemma rank4_shape_simps [simp]:
  "pad_row_shape [b, h, r, c] = Inr [b, h, r + 1, c]"
  "transpose_last_shape [b, h, r, c] = Inr [b, h, c, r]"
  "rows_but_last_shape [b, h, r, c] = Inr [b, h, r - 1, c]"
  "row_last_shape [b, h, r, c] = Inr [b, h, min 1 r, c]"
  "sum_dim2_keepdim_shape [b, h, r, c] = Inr [b, h, 1, c]"
  by (simp_all add: pad_row_shape_def transpose_last_shape_def rows_but_last_shape_def
        row_last_shape_def sum_dim2_keepdim_shape_def)

lemma split_1_Cons:
  "0 < n \<Longrightarrow> \<exists>t ts. split_1 x n rest = t # ts"
  by (cases n) (simp_all add: split_1_def upt_conv_Cons del: upt_Suc)

lemma broadcast_dim_same [simp]: "broadcast_dim a a = Some a"
  by (simp add: broadcast_dim_def)

lemma broadcast_shapes_same2 [simp]: "broadcast_shapes [a, b] [a, b] = Some [a, b]"
  by (simp add: broadcast_shapes_def)

lemma broadcast_shapes_row [simp]:
  "broadcast_shapes [B, H, R, C] [B, H, Suc 0, C] = Some [B, H, R, C]"
  by (simp add: broadcast_shapes_def broadcast_dim_def)

lemma broadcast_index2 [simp]:
  "b < B \<Longrightarrow> h < H \<Longrightarrow> broadcast_index [B, H] [b, h] = [b, h]"
  by (auto simp: broadcast_index_def)

lemma broadcast_index4 [simp]:
  "b < B \<Longrightarrow> h < H \<Longrightarrow> i < R \<Longrightarrow> j < C \<Longrightarrow>
   broadcast_index [B, H, R, C] [b, h, i, j] = [b, h, i, j]"
  by (auto simp: broadcast_index_def)

lemma broadcast_index4_row [simp]:
  "b < B \<Longrightarrow> h < H \<Longrightarrow> j < C \<Longrightarrow>
   broadcast_index [B, H, Suc 0, C] [b, h, i, j] = [b, h, 0, j]"
  by (auto simp: broadcast_index_def)

lemma sliced_model_simps:
  "use_slicing sliced_model" "\<not> use_tiling sliced_model"
  "decoder sliced_model = (\<lambda>z. Inr z)" "encoder sliced_model = (\<lambda>z. Inr z)"
  by (simp_all add: sliced_model_def enable_slicing_def identity_model_def AutoencoderDC_init_def)

lemma lower_relu6: "lower ''relu6'' = ''relu6''"
  by code_simp

lemma dom_ACTIVATION_FUNCTIONS:
  "(map_of ACTIVATION_FUNCTIONS s = None)
     = (s \<notin> {''swish'', ''silu'', ''mish'', ''gelu'', ''relu''})"
  by (simp add: ACTIVATION_FUNCTIONS_def)

text \<open>
  C6. \<^verbatim>\<open>get_activation\<close> returns an operator exactly when the lowercased name is one
  of swish, silu, mish, gelu, relu, and raises ValueError exactly otherwise.
  \<^verbatim>\<open>get_normalization\<close>, given a channel count \<open>k\<close>, returns an operator exactly for
  rms_norm, layer_norm and batch_norm, and raises ValueError exactly for every other
  name, whatever the other arguments are.
\<close>

theorem selectors_recognized_names:
  "(\<exists>a. get_activation name = Inr a)
     = (lower name \<in> {''swish'', ''silu'', ''mish'', ''gelu'', ''relu''})
   \<and> (get_activation name = Inl ValueError)
     = (lower name \<notin> {''swish'', ''silu'', ''mish'', ''gelu'', ''relu''})
   \<and> (\<exists>m. get_normalization name (Some (int k)) eps affine b = Inr m)
     = (name \<in> {''rms_norm'', ''layer_norm'', ''batch_norm''})
   \<and> (get_normalization name num_features eps affine b = Inl ValueError)
     = (name \<notin> {''rms_norm'', ''layer_norm'', ''batch_norm''})"
proof -
  have act: "get_activation name =
      (case map_of ACTIVATION_FUNCTIONS (lower name) of Some a \<Rightarrow> Inr a | None \<Rightarrow> Inl ValueError)"
    by (simp add: get_activation_def)
  have a1: "(\<exists>a. get_activation name = Inr a)
      = (lower name \<in> {''swish'', ''silu'', ''mish'', ''gelu'', ''relu''})"
    using dom_ACTIVATION_FUNCTIONS [of "lower name"]
    by (cases "map_of ACTIVATION_FUNCTIONS (lower name)") (simp_all add: act)
  have a2: "(get_activation name = Inl ValueError)
      = (lower name \<notin> {''swish'', ''silu'', ''mish'', ''gelu'', ''relu''})"
    using dom_ACTIVATION_FUNCTIONS [of "lower name"]
    by (cases "map_of ACTIVATION_FUNCTIONS (lower name)") (simp_all add: act)
  have n1: "(\<exists>m. get_normalization name (Some (int k)) eps affine b = Inr m)
      = (name \<in> {''rms_norm'', ''layer_norm'', ''batch_norm''})"
    by (simp add: get_normalization_def RMSNorm_init_def LayerNorm_init_def BatchNorm2d_init_def)
  have n2: "(get_normalization name num_features eps affine b = Inl ValueError)
      = (name \<notin> {''rms_norm'', ''layer_norm'', ''batch_norm''})"
    by (cases num_features)
       (simp_all add: get_normalization_def RMSNorm_init_def LayerNorm_init_def
          BatchNorm2d_init_def)
  from a1 a2 n1 n2 show ?thesis by blast
qed

text \<open>
  C10. Constructing a \<^verbatim>\<open>ResBlock\<close> with its declared default activation name
  \<^verbatim>\<open>"relu6"\<close>, or with any name whose lowercase form is not a key of the activation
  table, raises ValueError, whatever the channel counts and the normalization are.
\<close>

theorem ResBlock_init_unknown_activation:
  "ResBlock_init in_channels out_channels norm_type ResBlock_default_act_fn = Inl ValueError
   \<and> (map_of ACTIVATION_FUNCTIONS (lower name) = None \<longrightarrow>
        ResBlock_init in_channels out_channels norm_type (Some name) = Inl ValueError)"
proof -
  have unknown: "ResBlock_init in_channels out_channels norm_type (Some n) = Inl ValueError"
    if "map_of ACTIVATION_FUNCTIONS (lower n) = None" for n
    using that by (simp add: ResBlock_init_def get_activation_def)
  have "map_of ACTIVATION_FUNCTIONS (lower ''relu6'') = None"
    by (simp add: lower_relu6 dom_ACTIVATION_FUNCTIONS)
  then show ?thesis
    using unknown by (simp add: ResBlock_default_act_fn_def)
qed

theorem ResBlock_init_unknown_activation_witness:
  "map_of ACTIVATION_FUNCTIONS (lower ''relu6'') = None
   \<and> ResBlock_init 8 8 ResBlock_default_norm_type ResBlock_default_act_fn = Inl ValueError
   \<and> ResBlock_init 8 8 ''rms_norm'' (Some ''relu6'') = Inl ValueError"
proof -
  have h: "map_of ACTIVATION_FUNCTIONS (lower ''relu6'') = None"
    by (simp add: lower_relu6 dom_ACTIVATION_FUNCTIONS)
  show ?thesis
    using h ResBlock_init_unknown_activation [of 8 8 ResBlock_default_norm_type "''relu6''"]
      ResBlock_init_unknown_activation [of 8 8 "''rms_norm''" "''relu6''"]
    by simp
qed

text \<open>
  C9. \<^verbatim>\<open>enable_tiling\<close> sets \<^verbatim>\<open>use_tiling\<close>; each of the four tiling parameters
  becomes the argument when the argument is neither \<^verbatim>\<open>None\<close> nor zero and keeps its
  stored value otherwise, so a parameter that changes is never zero afterwards.
\<close>

theorem enable_tiling_truthy_updates:
  "use_tiling (enable_tiling self a b c d)
   \<and> tile_sample_min_height (enable_tiling self a b c d)
       = (case a of None \<Rightarrow> tile_sample_min_height self
          | Some v \<Rightarrow> if v = 0 then tile_sample_min_height self else v)
   \<and> tile_sample_min_width (enable_tiling self a b c d)
       = (case b of None \<Rightarrow> tile_sample_min_width self
          | Some v \<Rightarrow> if v = 0 then tile_sample_min_width self else v)
   \<and> tile_sample_stride_height (enable_tiling self a b c d)
       = (case c of None \<Rightarrow> tile_sample_stride_height self
          | Some v \<Rightarrow> if v = 0 then tile_sample_stride_height self else v)
   \<and> tile_sample_stride_width (enable_tiling self a b c d)
       = (case d of None \<Rightarrow> tile_sample_stride_width self
          | Some v \<Rightarrow> if v = 0 then tile_sample_stride_width self else v)
   \<and> (tile_sample_min_height (enable_tiling self a b c d) = tile_sample_min_height self
        \<or> tile_sample_min_height (enable_tiling self a b c d) \<noteq> 0)
   \<and> (tile_sample_min_width (enable_tiling self a b c d) = tile_sample_min_width self
        \<or> tile_sample_min_width (enable_tiling self a b c d) \<noteq> 0)
   \<and> (tile_sample_stride_height (enable_tiling self a b c d) = tile_sample_stride_height self
        \<or> tile_sample_stride_height (enable_tiling self a b c d) \<noteq> 0)
   \<and> (tile_sample_stride_width (enable_tiling self a b c d) = tile_sample_stride_width self
        \<or> tile_sample_stride_width (enable_tiling self a b c d) \<noteq> 0)
   \<and> use_slicing (enable_tiling self a b c d) = use_slicing self"
  by (simp add: enable_tiling_def py_or_def split: option.split)

theorem enable_tiling_truthy_updates_witness:
  "use_tiling (enable_tiling identity_model (Some 0) None (Some 0) (Some 256))
   \<and> tile_sample_min_height (enable_tiling identity_model (Some 0) None (Some 0) (Some 256)) = 512
   \<and> tile_sample_min_width (enable_tiling identity_model (Some 0) None (Some 0) (Some 256)) = 512
   \<and> tile_sample_stride_height (enable_tiling identity_model (Some 0) None (Some 0) (Some 256)) = 448
   \<and> tile_sample_stride_width (enable_tiling identity_model (Some 0) None (Some 0) (Some 256)) = 256"
  using enable_tiling_truthy_updates [of identity_model "Some 0" None "Some 0" "Some 256"]
  by (simp add: identity_model_def AutoencoderDC_init_def)

text \<open>
  With slicing enabled and a batch of more than one sample, \<^verbatim>\<open>encode\<close> is the
  per-sample path on each slice of size one, in order, concatenated.
\<close>

lemma encode_sliced:
  "use_slicing self \<Longrightarrow> shape x = n # rest \<Longrightarrow> 1 < n \<Longrightarrow>
   encode self x = bind (map_result (private_encode self) (split_1 x n rest)) cat"
  by (simp add: encode_def)

text \<open>
  C1. The same does not hold for \<^verbatim>\<open>decode\<close>: with slicing enabled and a batch of
  more than one sample it never returns. It raises what \<^verbatim>\<open>_decode\<close> raises on the
  first slice, and AttributeError (from \<^verbatim>\<open>.sample\<close> on a tensor) when \<^verbatim>\<open>_decode\<close>
  succeeds there.
\<close>

theorem decode_sliced_raises:
  assumes "use_slicing self" and "shape z = n # rest" and "1 < n"
  shows "decode self z =
     (case private_decode self (hd (split_1 z n rest)) of
        Inl e \<Rightarrow> Inl e
      | Inr d \<Rightarrow> Inl AttributeError)"
proof -
  obtain t ts where s: "split_1 z n rest = t # ts"
    using split_1_Cons [of n z rest] assms(3) by auto
  show ?thesis
    using assms s by (cases "private_decode self t") (simp_all add: decode_def tensor_sample_def)
qed

theorem decode_sliced_raises_witness:
  "use_slicing sliced_model \<and> shape ones_batch = 2 # [1, 1, 1] \<and> (1::nat) < 2
   \<and> map_result (private_decode sliced_model) (split_1 ones_batch 2 [1, 1, 1])
       = Inr (split_1 ones_batch 2 [1, 1, 1])
   \<and> decode sliced_model ones_batch = Inl AttributeError"
proof -
  have sh: "shape ones_batch = 2 # [1, 1, 1]"
    by (simp add: ones_batch_def)
  have per_sample: "map_result (private_decode sliced_model) (split_1 ones_batch 2 [1, 1, 1])
       = Inr (split_1 ones_batch 2 [1, 1, 1])"
    by (simp add: split_1_def upt_conv_Cons private_decode_def sliced_model_simps)
  have "decode sliced_model ones_batch = Inl AttributeError"
    using decode_sliced_raises [of sliced_model ones_batch 2 "[1, 1, 1]"]
    by (simp add: sh split_1_def upt_conv_Cons private_decode_def sliced_model_simps)
  with sh per_sample show ?thesis
    by (simp add: sliced_model_simps)
qed

text \<open>
  C2. On an input of spatial size \<open>height \<times> width\<close> the processor takes the linear
  formula exactly when \<open>height * width\<close> exceeds the head dimension and the quadratic
  formula exactly otherwise; the flag is a function of these three numbers only.
\<close>

theorem attention_formula_switch:
  assumes "shape hidden_states = [batch, channels, height, width]"
  shows "use_linear_attention (attention_head_dim attn) height width
           = (int (height * width) > attention_head_dim attn)
     \<and> (int (height * width) > attention_head_dim attn \<longrightarrow>
          SanaMultiscaleAttnProcessor2_0_call qkv project attn hidden_states
            = attention_pass apply_linear_attention qkv project attn hidden_states)
     \<and> (int (height * width) \<le> attention_head_dim attn \<longrightarrow>
          SanaMultiscaleAttnProcessor2_0_call qkv project attn hidden_states
            = attention_pass apply_quadratic_attention qkv project attn hidden_states)"
  using assms
  by (simp add: use_linear_attention_def SanaMultiscaleAttnProcessor2_0_call_def
        attention_pass_def)

theorem attention_formula_switch_witness:
  "shape example_query = [1, 1, 2, 3]
   \<and> int (2 * 3) > attention_head_dim example_attention
   \<and> SanaMultiscaleAttnProcessor2_0_call example_qkv example_project example_attention example_query
       = attention_pass apply_linear_attention example_qkv example_project example_attention example_query
   \<and> shape example_small = [1, 1, 1, 2]
   \<and> int (1 * 2) \<le> attention_head_dim example_attention
   \<and> SanaMultiscaleAttnProcessor2_0_call example_qkv example_project example_attention example_small
       = attention_pass apply_quadratic_attention example_qkv example_project example_attention example_small"
proof -
  have s1: "shape example_query = [1, 1, 2, 3]"
    by (simp add: example_query_def)
  have s2: "shape example_small = [1, 1, 1, 2]"
    by (simp add: example_small_def)
  have d: "attention_head_dim example_attention = 2"
    by (simp add: example_attention_def)
  show ?thesis
    using attention_formula_switch [OF s1, of example_attention example_qkv example_project]
      attention_formula_switch [OF s2, of example_attention example_qkv example_project]
    by (simp add: s1 s2 d)
qed

text \<open>
  C5. For query and key of \<open>d\<close> rows and key and value of \<open>N\<close> columns, the linear
  formula (pad the value with a row of ones, multiply by the transposed key, multiply
  by the query, divide the other rows by the last row plus \<open>eps\<close>) succeeds, and each
  entry of its result is \<open>V K\<^sup>T Q\<close> divided by \<open>1\<^sup>T K\<^sup>T Q + eps\<close> at that column.
\<close>

theorem linear_attention_renormalized:
  assumes "shape query = [B, H, d, M]" and "shape key = [B, H, d, N]"
    and "shape v = [B, H, dv, N]"
  shows "\<exists>out. apply_linear_attention self query key v = Inr out
           \<and> shape out = [B, H, dv, M]
           \<and> (\<forall>b<B. \<forall>h<H. \<forall>i<dv. \<forall>n<M.
                 elem out [b, h, i, n] = renormalized (attn_eps self) query key v d N b h i n)"
  using assms
  by (simp add: apply_linear_attention_def pad_ones_row_def transpose_last_def matmul_def
        matmul_shape_def broadcast_result_def
        rows_but_last_def row_last_def broadcast_op_def add_scalar_def renormalized_def
        VKtQ_def ones_KtQ_def)

theorem linear_attention_renormalized_witness:
  "shape example_query = [1, 1, 2, 3] \<and> shape example_key = [1, 1, 2, 3]
   \<and> shape example_v = [1, 1, 2, 3]
   \<and> (\<exists>out. apply_linear_attention example_attention example_query example_key example_v = Inr out
         \<and> shape out = [1, 1, 2, 3]
         \<and> elem out [0, 0, 0, 0] = 8 / 7 \<and> elem out [0, 0, 1, 2] = 78 / 25)"
proof -
  have s1: "shape example_query = [1, 1, 2, 3]"
    by (simp add: example_query_def)
  have s2: "shape example_key = [1, 1, 2, 3]"
    by (simp add: example_key_def)
  have s3: "shape example_v = [1, 1, 2, 3]"
    by (simp add: example_v_def)
  have r1: "renormalized (attn_eps example_attention) example_query example_key example_v 2 3 0 0 0 0 = 8 / 7"
    by (simp add: renormalized_def VKtQ_def ones_KtQ_def example_attention_def
          example_query_def example_key_def example_v_def lessThan_Suc eval_nat_numeral)
  have r2: "renormalized (attn_eps example_attention) example_query example_key example_v 2 3 0 0 1 2 = 78 / 25"
    by (simp add: renormalized_def VKtQ_def ones_KtQ_def example_attention_def
          example_query_def example_key_def example_v_def lessThan_Suc eval_nat_numeral)
  from linear_attention_renormalized [OF s1 s2 s3, of example_attention]
  obtain out where o: "apply_linear_attention example_attention example_query example_key example_v = Inr out"
    "shape out = [1, 1, 2, 3]"
    "\<forall>b<1. \<forall>h<1. \<forall>i<2. \<forall>n<3.
       elem out [b, h, i, n]
         = renormalized (attn_eps example_attention) example_query example_key example_v 2 3 b h i n"
    by blast
  from o(3) have "elem out [0, 0, 0, 0] = 8 / 7" "elem out [0, 0, 1, 2] = 78 / 25"
    using r1 r2 by simp_all
  with o(1,2) s1 s2 s3 show ?thesis by simp
qed

lemma RMSNorm_normalize_singleton:
  "RMSNorm_normalize eps [x] = [x * (1 / sqrt (x ^ 2 + eps))]"
  by (simp add: RMSNorm_normalize_def mean_list_def rsqrt_def)

lemma sqrt_11: "sqrt (121 / 4000000) = 11 / 2000"
  by (rule real_sqrt_unique) (simp_all add: power2_eq_square)

lemma sqrt_1001: "sqrt (1002001 / 400000000) = 1001 / 20000"
  by (rule real_sqrt_unique) (simp_all add: power2_eq_square)

text \<open>
  C7. The normalized value is not invariant under rescaling when \<open>eps\<close> is positive:
  with the \<open>eps\<close> of \<open>1e-5\<close> every caller passes, the vector \<open>[9/2000]\<close> normalizes to
  \<open>[9/11]\<close> and its multiple by \<open>111/10\<close> to \<open>[999/1001]\<close>.
\<close>

theorem RMSNorm_scale_counterexample:
  "RMSNorm_normalize (1 / 100000) (map (\<lambda>x. (111 / 10) * x) [9 / 2000])
     \<noteq> RMSNorm_normalize (1 / 100000) [9 / 2000]"
proof -
  have a: "RMSNorm_normalize (1 / 100000) [9 / 2000] = [9 / 11]"
    by (simp add: RMSNorm_normalize_singleton power2_eq_square sqrt_11)
  have "map (\<lambda>x. (111 / 10) * x) [9 / 2000] = [999 / 20000 :: real]"
    by simp
  moreover have "RMSNorm_normalize (1 / 100000) [999 / 20000] = [999 / 1001]"
    by (simp add: RMSNorm_normalize_singleton power2_eq_square sqrt_1001)
  ultimately show ?thesis by (simp add: a)
qed

lemma mean_list_scale:
  "mean_list (map (\<lambda>x. x ^ 2) (map (\<lambda>x. c * x) xs)) = c ^ 2 * mean_list (map (\<lambda>x. x ^ 2) xs)"
proof -
  have "sum_list (map (\<lambda>x. (c * x) ^ 2) xs) = c ^ 2 * sum_list (map (\<lambda>x. x ^ 2) xs)"
    by (induction xs) (simp_all add: algebra_simps)
  then show ?thesis
    by (simp add: mean_list_def o_def)
qed

lemma RMSNorm_normalize_scale:
  assumes "0 < c"
  shows "RMSNorm_normalize eps (map (\<lambda>x. c * x) xs) = RMSNorm_normalize (eps / c ^ 2) xs"
proof -
  let ?m = "mean_list (map (\<lambda>x. x ^ 2) xs)"
  have "c ^ 2 * ?m + eps = c ^ 2 * (?m + eps / c ^ 2)"
    using assms by (simp add: algebra_simps)
  then have "sqrt (c ^ 2 * ?m + eps) = c * sqrt (?m + eps / c ^ 2)"
    using assms by (simp add: real_sqrt_mult)
  then have "c * x * rsqrt (c ^ 2 * ?m + eps) = x * rsqrt (?m + eps / c ^ 2)" for x
    using assms by (simp add: rsqrt_def)
  then have "map (\<lambda>x. x * rsqrt (c ^ 2 * ?m + eps)) (map (\<lambda>x. c * x) xs)
      = map (\<lambda>x. x * rsqrt (?m + eps / c ^ 2)) xs"
    by simp
  then show ?thesis
    unfolding RMSNorm_normalize_def Let_def mean_list_scale .
qed

text \<open>
  The same holds with the learned scale and bias applied: the forward pass on the
  rescaled input is the forward pass of the module with \<open>eps / c\<^sup>2\<close> on the input.
\<close>

lemma RMSNorm_forward_scale:
  assumes "0 < c"
  shows "RMSNorm_forward self (map (\<lambda>x. c * x) xs)
           = RMSNorm_forward (self\<lparr>rms_eps := rms_eps self / c ^ 2\<rparr>) xs"
  by (simp add: RMSNorm_forward_def RMSNorm_normalize_scale [OF assms] Let_def
        split: option.split)

text \<open>
  C7, as amended. Rescaling the input by a positive \<open>c\<close> acts on the normalized value
  as dividing \<open>eps\<close> by \<open>c\<^sup>2\<close>, wherever the square root is of a positive number; for
  \<open>eps = 0\<close> this is the invariance under rescaling.
\<close>

theorem RMSNorm_scale_rescales_eps:
  assumes "0 < c" and "0 < mean_list (map (\<lambda>x. x ^ 2) xs) + eps / c ^ 2"
  shows "RMSNorm_normalize eps (map (\<lambda>x. c * x) xs) = RMSNorm_normalize (eps / c ^ 2) xs"
  using assms(1) by (rule RMSNorm_normalize_scale)

theorem RMSNorm_scale_rescales_eps_witness:
  "(0::real) < 3 \<and> 0 < mean_list (map (\<lambda>x. x ^ 2) [1]) + 0 / 3 ^ 2
   \<and> RMSNorm_normalize 0 (map (\<lambda>x. 3 * x) [1]) = RMSNorm_normalize (0 / 3 ^ 2) [1]
   \<and> RMSNorm_normalize 0 [1] = [1]"
proof -
  have h: "0 < mean_list (map (\<lambda>x. x ^ 2) [1::real]) + 0 / 3 ^ 2"
    by (simp add: mean_list_def)
  have "RMSNorm_normalize 0 [1] = [1]"
    by (simp add: RMSNorm_normalize_singleton)
  then show ?thesis
    using h RMSNorm_scale_rescales_eps [of 3 "[1]" 0] by simp
qed

lemma Conv2d_init_not_AssertionError: "Conv2d_init a b c d e f \<noteq> Inl AssertionError"
  by (simp add: Conv2d_init_def)

lemma bind_Conv2d_init_not_AssertionError:
  "bind (Conv2d_init a b c d e f) (\<lambda>conv. Inr (g conv)) \<noteq> Inl AssertionError"
  by (simp add: Conv2d_init_def)

text \<open>
  C3. Two of the three invariants are not checked at construction: a down-sampling
  block from 3 to 8 channels (12 is not a multiple of 8) and an up-sampling block
  from 3 to 2 channels (8 is not a multiple of 3) both construct, and the former fails
  only in its forward pass.
\<close>

theorem DC_blocks_construction_counterexample:
  "(3 * 2 ^ 2) mod 8 \<noteq> (0::int)
   \<and> (\<exists>blk. DCDownBlock2d_init 3 8 True True = Inr blk
          \<and> DCDownBlock2d_forward_shape blk [1, 3, 4, 4] = Inl RuntimeError)
   \<and> (2 * 2 ^ 2) mod 3 \<noteq> (0::int)
   \<and> (\<exists>blk. DCUpBlock2d_init 3 2 False True ''nearest'' = Inr blk)"
  by (simp add: DCDownBlock2d_init_def DCUpBlock2d_init_def Conv2d_init_def
        DCDownBlock2d_forward_shape_def Conv2d_forward_shape_def conv_out_size_def
        pixel_unshuffle_shape_def DCDownBlock2d_shortcut_shape_def unflatten_dim1_shape_def
        mean_dim2_shape_def broadcast_result_def broadcast_shapes_def broadcast_dim_def)

text \<open>
  C3, as amended. The constructor of the down-sampling block raises AssertionError
  exactly when pixel-unshuffle down-sampling is selected and \<open>out_channels\<close> is not a
  multiple of \<open>factor\<^sup>2\<close>; the constructor of the up-sampling block never does.
\<close>

theorem DC_blocks_construction_assertion:
  "(DCDownBlock2d_init in_channels out_channels downsample shortcut = Inl AssertionError)
     = (downsample \<and> out_channels mod 2 ^ 2 \<noteq> 0)
   \<and> DCUpBlock2d_init in_channels out_channels interpolate shortcut mode \<noteq> Inl AssertionError"
proof -
  have up: "DCUpBlock2d_init in_channels out_channels interpolate shortcut mode \<noteq> Inl AssertionError"
    by (simp add: DCUpBlock2d_init_def Let_def bind_Conv2d_init_not_AssertionError)
  have down: "(DCDownBlock2d_init in_channels out_channels downsample shortcut = Inl AssertionError)
     = (downsample \<and> out_channels mod 2 ^ 2 \<noteq> 0)"
    by (auto simp add: DCDownBlock2d_init_def Let_def bind_Conv2d_init_not_AssertionError)
  from up down show ?thesis by simp
qed

lemma DCDownBlock2d_init_fields:
  assumes "DCDownBlock2d_init in_channels out_channels downsample shortcut = Inr blk"
  shows "down_factor blk = 2"
    and "down_group_size blk = in_channels * 4 div out_channels"
    and "down_shortcut blk = shortcut"
    and "down_downsample blk = downsample"
    and "0 < out_channels"
    and "0 \<le> in_channels"
  using assms
  by (auto simp add: DCDownBlock2d_init_def Let_def Conv2d_init_def bind_eq_Inr
        split: if_splits)

lemma shortcut_index_bounds:
  fixes q g s C :: nat
  assumes "q < 4 * C div g" and "s < g" and "g dvd 4 * C"
  shows "(q * g + s) div 4 < C"
proof -
  from assms(3) obtain m where m: "4 * C = g * m" by (auto simp: dvd_def)
  with assms(2) have qm: "q < m" using assms(1) by simp
  have "q * g + s < (q + 1) * g" using assms(2) by simp
  also have "\<dots> \<le> m * g" using qm by (simp add: Suc_leI mult_le_mono1 del: mult_Suc)
  finally have "q * g + s < 4 * C" using m by (simp add: mult.commute)
  then show ?thesis by simp
qed

lemma even_index_bound:
  fixes h H i :: nat
  assumes "h < H div 2" and "even H" and "i < 2"
  shows "h * 2 + i < H"
  using assms by (auto elim!: evenE)

text \<open>
  The shortcut on a feature map of no elements: pixel-unshuffle hands it back as it
  is, so the shortcut of a block from 2 to 4 channels keeps the height and width of an
  empty batch and groups its 2 channels into 1, and the shortcut of a block from 3 to
  6 channels raises, as 3 channels cannot be grouped by 2. The property below is
  therefore about feature maps that have elements.
\<close>

lemma shortcut_of_empty_input:
  "(\<exists>blk y. DCDownBlock2d_init 2 4 True True = Inr blk
       \<and> DCDownBlock2d_shortcut blk (empty_input 2) = Inr y \<and> shape y = [0, 1, 2, 2])
   \<and> (\<exists>blk. DCDownBlock2d_init 3 6 False True = Inr blk
       \<and> DCDownBlock2d_shortcut blk (empty_input 3) = Inl RuntimeError)"
  by (simp add: DCDownBlock2d_init_def Conv2d_init_def empty_input_def DCDownBlock2d_shortcut_def
        pixel_unshuffle_def pixel_unshuffle_shape_def unflatten_dim1_def unflatten_dim1_shape_def
        mean_dim2_def mean_dim2_shape_def)

text \<open>
  C8. For a down-sampling block constructed with its shortcut, whose output channels
  divide four times its input channels, and a feature map that has elements (batch,
  channels, height and width are positive), of even height and width, whose elements
  all equal \<open>k\<close>, the shortcut branch returns a tensor of the block's output channels
  and half the height and width whose elements all equal \<open>k\<close>.
\<close>

theorem shortcut_of_constant:
  assumes init: "DCDownBlock2d_init in_channels out_channels downsample True = Inr blk"
    and shp: "shape x = [B, C, H, W]"
    and chan: "int C = in_channels" "0 < C"
    and divides: "(in_channels * 4) mod out_channels = 0"
    and even: "even H" "even W"
    and elems: "0 < B" "0 < H" "0 < W"
    and const: "\<forall>b<B. \<forall>c<C. \<forall>h<H. \<forall>w<W. elem x [b, c, h, w] = k"
  shows "\<exists>y. DCDownBlock2d_shortcut blk x = Inr y
           \<and> shape y = [B, nat out_channels, H div 2, W div 2]
           \<and> (\<forall>b<B. \<forall>c<nat out_channels. \<forall>h<H div 2. \<forall>w<W div 2. elem y [b, c, h, w] = k)"
proof -
  note f = DCDownBlock2d_init_fields [OF init]
  define g where "g = nat (in_channels * 4 div out_channels)"
  define n where "n = nat out_channels"
  have n: "0 < n" "out_channels = int n"
    using f(5) by (simp_all add: n_def)
  have "int (4 * C) mod int n = 0"
    using divides chan(1) n(2) by (simp add: mult.commute)
  then have ndvd: "n dvd 4 * C"
    by (metis dvd_eq_mod_eq_0 int_dvd_int_iff zmod_int of_nat_eq_0_iff mod_0_imp_dvd)
  have "in_channels * 4 div out_channels = int (4 * C div n)"
    using chan(1) n(2) by (simp add: zdiv_int mult.commute)
  then have gdef: "g = 4 * C div n"
    by (simp add: g_def)
  have gn: "g * n = 4 * C"
    using ndvd by (simp add: gdef)
  have gpos: "0 < g"
    using gn chan(2) by (cases g) auto
  have gdvd: "g dvd 4 * C"
    using gn by (metis dvd_triv_left)
  have gs: "down_group_size blk = int g"
    using f(2) gpos by (simp_all add: g_def)
  have chans: "4 * C div g = n"
    using gn gpos by (metis nonzero_mult_div_cancel_left less_numeral_extra(3))
  have modg: "(C * 4) mod g = 0" "C * 2 * 2 mod g = 0"
    using gdvd by (simp_all add: mult.commute mult.assoc)
  have hw: "H mod 2 = 0" "W mod 2 = 0"
    using even by presburger+
  have summand: "elem x [b, (q * g + s) div 4, h * 2 + (q * g + s) div 2 mod 2, w * 2 + (q * g + s) mod 2] = k"
    if "b < B" "q < n" "s < g" "h < H div 2" "w < W div 2" for b q s h w
  proof -
    have "(q * g + s) div 4 < C"
      using shortcut_index_bounds [of q C g s] that chans gdvd by simp
    moreover have "h * 2 + (q * g + s) div 2 mod 2 < H"
      using even_index_bound [OF that(4) even(1)] by simp
    moreover have "w * 2 + (q * g + s) mod 2 < W"
      using even_index_bound [OF that(5) even(2)] by simp
    ultimately show ?thesis
      using const that(1) by blast
  qed
  have mean: "(\<Sum>s<g. elem x [b, (q * g + s) div 4, h * 2 + (q * g + s) div 2 mod 2,
                              w * 2 + (q * g + s) mod 2]) / real g = k"
    if "b < B" "q < n" "h < H div 2" "w < W div 2" for b q h w
  proof -
    have "(\<Sum>s<g. elem x [b, (q * g + s) div 4, h * 2 + (q * g + s) div 2 mod 2,
                              w * 2 + (q * g + s) mod 2]) = (\<Sum>s<g. k)"
      by (rule sum.cong) (use summand that in auto)
    then show ?thesis using gpos by simp
  qed
  show ?thesis
    using shp hw modg gpos chans mean chan(2) elems
    by (simp add: DCDownBlock2d_shortcut_def f(1) gs(1) pixel_unshuffle_def pixel_unshuffle_shape_def
          unflatten_dim1_def unflatten_dim1_shape_def mean_dim2_def mean_dim2_shape_def n(2))
qed

theorem shortcut_of_constant_witness:
  "\<exists>blk. DCDownBlock2d_init 2 4 True True = Inr blk
      \<and> shape constant_input = [1, 2, 2, 2]
      \<and> (2 * 4) mod 4 = (0::int)
      \<and> (\<exists>y. DCDownBlock2d_shortcut blk constant_input = Inr y
             \<and> shape y = [1, 4, 1, 1] \<and> elem y [0, 3, 0, 0] = 5)"
proof -
  obtain blk where init: "DCDownBlock2d_init 2 4 True True = Inr blk"
    by (simp add: DCDownBlock2d_init_def Conv2d_init_def)
  have shp: "shape constant_input = [1, 2, 2, 2]"
    by (simp add: constant_input_def)
  have const: "\<forall>b<1. \<forall>c<2. \<forall>h<2. \<forall>w<2. elem constant_input [b, c, h, w] = 5"
    by (simp add: constant_input_def)
  from shortcut_of_constant [OF init shp _ _ _ _ _ _ _ _ const]
  obtain y where y: "DCDownBlock2d_shortcut blk constant_input = Inr y"
    "shape y = [1, nat 4, 2 div 2, 2 div 2]"
    "\<forall>b<1. \<forall>c<nat 4. \<forall>h<2 div 2. \<forall>w<2 div 2. elem y [b, c, h, w] = 5"
    by auto
  from y(3) have "elem y [0, 3, 0, 0] = 5" by simp
  with init shp y(1,2) show ?thesis by simp
qed

lemma movedim_rank4 [simp]:
  "movedim_1_last [a, b, c, d] = Inr [a, c, d, b]"
  "movedim_last_1 [a, b, c, d] = Inr [a, d, b, c]"
  by (simp_all add: movedim_1_last_def movedim_last_1_def)

lemma broadcast_dim_cases:
  "broadcast_dim a b = Some c \<Longrightarrow> c = a \<or> c = b"
  by (auto simp: broadcast_dim_def split: if_splits)

lemma broadcast_result_channels:
  "broadcast_result [a, b, c, d] [a, b', c, d] =
     (case broadcast_dim b b' of None \<Rightarrow> Inl RuntimeError | Some x \<Rightarrow> Inr [a, x, c, d])"
  by (simp add: broadcast_result_def broadcast_shapes_def split: option.split)

lemma broadcast_result_same [simp]:
  "broadcast_result [a, b, c, d] [a, b, c, d] = Inr [a, b, c, d]"
  by (simp add: broadcast_result_channels)

lemma broadcast_result_weight:
  "broadcast_result [a, b, c, d] [n] =
     (case broadcast_dim d n of None \<Rightarrow> Inl RuntimeError | Some x \<Rightarrow> Inr [a, b, c, x])"
  by (simp add: broadcast_result_def broadcast_shapes_def split: option.split)

lemma lower_silu: "lower ''silu'' = ''silu''"
  by code_simp

lemma get_activation_silu: "get_activation ''silu'' = Inr SiLU"
  by (simp add: get_activation_def lower_silu ACTIVATION_FUNCTIONS_def)

text \<open>The 3x3 convolution of stride one and padding one keeps the spatial size.\<close>

lemma Conv2d_init_Inr:
  "Conv2d_init i o' k s p g = Inr conv \<Longrightarrow>
   conv = \<lparr>conv_in_channels = i, conv_out_channels = o', conv_kernel_size = k,
           conv_stride = s, conv_padding = p, conv_groups = g\<rparr> \<and> 0 \<le> o' \<and> 0 < g"
  by (auto simp: Conv2d_init_def split: if_splits)

lemma Conv2d_forward_channels:
  "Conv2d_forward_shape conv [B, C, H, W] = Inr out \<Longrightarrow> int C = conv_in_channels conv"
  by (auto simp: Conv2d_forward_shape_def split: if_splits)

lemma Conv2d_same_size:
  assumes "Conv2d_forward_shape conv [B, C, H, W] = Inr out"
    and "conv_stride conv = 1"
    and "conv_kernel_size conv = 2 * conv_padding conv + 1"
  shows "out = [B, nat (conv_out_channels conv), H, W] \<and> int C = conv_in_channels conv"
  using assms
  by (auto simp: Conv2d_forward_shape_def conv_out_size_def split: if_splits)

lemma RMSNorm_init_Inr:
  "RMSNorm_init (Some d) eps True True = Inr n \<Longrightarrow>
   0 \<le> d \<and> rms_weight n = Some (replicate (nat d) 1) \<and> rms_bias n = Some (replicate (nat d) 0)"
  by (auto simp: RMSNorm_init_def split: if_splits)

lemma RMSNorm_forward_shape_channels:
  assumes "rms_weight n = Some (replicate c 1)" and "rms_bias n = Some (replicate c 0)"
  shows "RMSNorm_forward_shape n [B, H, W, c] = Inr [B, H, W, c]"
  using assms by (simp add: RMSNorm_forward_shape_def broadcast_result_weight)

lemma ResBlock_init_Inr:
  assumes "ResBlock_init c c ''rms_norm'' (Some ''silu'') = Inr blk"
  shows "0 \<le> c" and "rb_norm_type blk = ''rms_norm''"
    and "\<exists>n. rb_norm blk = RMSNorm_module n \<and> rms_weight n = Some (replicate (nat c) 1)
           \<and> rms_bias n = Some (replicate (nat c) 0)"
    and "rb_conv1 blk = \<lparr>conv_in_channels = c, conv_out_channels = c, conv_kernel_size = 3,
           conv_stride = 1, conv_padding = 1, conv_groups = 1\<rparr>"
    and "rb_conv2 blk = \<lparr>conv_in_channels = c, conv_out_channels = c, conv_kernel_size = 3,
           conv_stride = 1, conv_padding = 1, conv_groups = 1\<rparr>"
  using assms
  by (auto simp: ResBlock_init_def get_activation_silu bind_eq_Inr get_normalization_default_def
        get_normalization_def dest!: Conv2d_init_Inr RMSNorm_init_Inr)

lemma ResBlock_preserves_shape:
  assumes init: "ResBlock_init c c ''rms_norm'' (Some ''silu'') = Inr blk"
    and fwd: "ResBlock_forward_shape blk [B, C, H, W] = Inr out"
  shows "out = [B, C, H, W]"
proof -
  note f = ResBlock_init_Inr [OF init]
  from f(3) obtain n where n: "rb_norm blk = RMSNorm_module n"
    "rms_weight n = Some (replicate (nat c) 1)" "rms_bias n = Some (replicate (nat c) 0)"
    by blast
  from fwd obtain s1 s2 s3 where
    s1: "Conv2d_forward_shape (rb_conv1 blk) [B, C, H, W] = Inr s1" and
    s2: "Conv2d_forward_shape (rb_conv2 blk) s1 = Inr s2" and
    s3: "norm_over_channels_shape (rb_norm_type blk) (rb_norm blk) s2 = Inr s3" and
    s4: "broadcast_result s3 [B, C, H, W] = Inr out"
    by (auto simp: ResBlock_forward_shape_def bind_eq_Inr)
  have 1: "s1 = [B, nat c, H, W]" "int C = c"
    using Conv2d_same_size [OF s1] by (simp_all add: f(4))
  have 2: "s2 = [B, nat c, H, W]"
    using Conv2d_same_size [of "rb_conv2 blk" B "nat c" H W s2] s2 1 by (simp add: f(5))
  have 3: "s3 = [B, nat c, H, W]"
    using s3 by (simp add: norm_over_channels_shape_def f(2) 2 n(1) normalization_forward_shape_def
        RMSNorm_forward_shape_channels [OF n(2,3)])
  have "nat c = C" using 1(2) by auto
  with s4 3 show ?thesis by simp
qed

lemma Linear_init_Inr:
  "Linear_init i o' = Inr l \<Longrightarrow> l = \<lparr>in_features = i, out_features = o'\<rparr> \<and> 0 \<le> i \<and> 0 \<le> o'"
  by (auto simp: Linear_init_def split: if_splits)

lemma Linear_forward_shape_rank4:
  "Linear_forward_shape l [a, b, c, d] = Inr out \<Longrightarrow>
   out = [a, b, c, nat (out_features l)] \<and> int d = in_features l"
  by (auto simp: Linear_forward_shape_def split: if_splits)

lemma chunk2_dim1_rank4:
  "chunk2_dim1 [B, n, H, W] = Inr (a, b) \<Longrightarrow> \<exists>c1 c2. a = [B, c1, H, W] \<and> b = [B, c2, H, W]"
  by (auto simp: chunk2_dim1_def split: list.splits)

lemma broadcast_result_channels_Inr:
  "broadcast_result [a, b, c, d] [a, b', c, d] = Inr out \<Longrightarrow> \<exists>x. out = [a, x, c, d]"
  by (auto simp: broadcast_result_channels split: option.splits)

lemma GLUMBConv_init_Inr:
  assumes "GLUMBConv_init c c = Inr blk"
  shows "0 \<le> c"
    and "conv_inverted blk = \<lparr>conv_in_channels = c, conv_out_channels = 4 * c * 2,
           conv_kernel_size = 1, conv_stride = 1, conv_padding = 0, conv_groups = 1\<rparr>"
    and "conv_depth blk = \<lparr>conv_in_channels = 4 * c * 2, conv_out_channels = 4 * c * 2,
           conv_kernel_size = 3, conv_stride = 1, conv_padding = 1, conv_groups = 4 * c * 2\<rparr>"
    and "conv_point blk = \<lparr>conv_in_channels = 4 * c, conv_out_channels = c,
           conv_kernel_size = 1, conv_stride = 1, conv_padding = 0, conv_groups = 1\<rparr>"
    and "rms_weight (glu_norm blk) = Some (replicate (nat c) 1)"
    and "rms_bias (glu_norm blk) = Some (replicate (nat c) 0)"
  using assms
  by (auto simp: GLUMBConv_init_def Let_def bind_eq_Inr dest!: Conv2d_init_Inr RMSNorm_init_Inr)

lemma GLUMBConv_preserves_shape:
  assumes init: "GLUMBConv_init c c = Inr blk"
    and fwd: "GLUMBConv_forward_shape blk [B, C, H, W] = Inr out"
  shows "out = [B, C, H, W]"
proof -
  note f = GLUMBConv_init_Inr [OF init]
  from fwd obtain s1 s2 a b s3 s4 s5 where
    s1: "Conv2d_forward_shape (conv_inverted blk) [B, C, H, W] = Inr s1" and
    s2: "Conv2d_forward_shape (conv_depth blk) s1 = Inr s2" and
    ch: "chunk2_dim1 s2 = Inr (a, b)" and
    s3: "broadcast_result a b = Inr s3" and
    s4: "Conv2d_forward_shape (conv_point blk) s3 = Inr s4" and
    s5: "bind (movedim_1_last s4) (\<lambda>hs. bind (RMSNorm_forward_shape (glu_norm blk) hs)
           (\<lambda>hs. bind (movedim_last_1 hs) (\<lambda>hs. broadcast_result hs [B, C, H, W]))) = Inr out"
    by (auto simp: GLUMBConv_forward_shape_def bind_eq_Inr)
  have 1: "s1 = [B, nat (4 * c * 2), H, W]" "int C = c"
    using Conv2d_same_size [OF s1] by (simp_all add: f(2))
  have 2: "s2 = [B, nat (4 * c * 2), H, W]"
    using Conv2d_same_size [of "conv_depth blk" B "nat (4 * c * 2)" H W s2] s2 1
    by (simp add: f(3))
  have "chunk2_dim1 [B, nat (4 * c * 2), H, W] = Inr (a, b)"
    using ch 2 by simp
  then obtain c1 c2 where ab: "a = [B, c1, H, W]" "b = [B, c2, H, W]"
    using chunk2_dim1_rank4 by blast
  from broadcast_result_channels_Inr [of B c1 H W c2 s3] s3 ab
  obtain x where 3: "s3 = [B, x, H, W]" by auto
  have 4: "s4 = [B, nat c, H, W]"
    using Conv2d_same_size [of "conv_point blk" B x H W s4] s4 3 by (simp add: f(4))
  have C: "nat c = C" using 1(2) by auto
  have "RMSNorm_forward_shape (glu_norm blk) [B, H, W, C] = Inr [B, H, W, C]"
    using RMSNorm_forward_shape_channels [OF f(5,6)] C by simp
  with s5 4 C show ?thesis
    by simp
qed

lemma SanaMultiscaleLinearAttention_init_Inr:
  assumes "SanaMultiscaleLinearAttention_init c c None head_dim ''rms_norm'' ks eps True = Inr attn"
  shows "0 \<le> c"
    and "in_features (to_q attn) = c"
    and "out_features (to_out attn) = c"
    and "attn_norm_type attn = ''rms_norm''"
    and "residual_connection attn"
    and "\<exists>n. norm_out attn = RMSNorm_module n \<and> rms_weight n = Some (replicate (nat c) 1)
           \<and> rms_bias n = Some (replicate (nat c) 0)"
  using assms
  by (auto simp: SanaMultiscaleLinearAttention_init_def Let_def bind_eq_Inr
        get_normalization_default_def get_normalization_def
        dest!: Linear_init_Inr RMSNorm_init_Inr split: if_splits)

lemma attention_preserves_shape:
  assumes init: "SanaMultiscaleLinearAttention_init c c None head_dim ''rms_norm'' ks eps True = Inr attn"
    and fwd: "SanaMultiscaleAttnProcessor2_0_call_shape attn [B, C, H, W] = Inr out"
  shows "out = [B, C, H, W]"
proof -
  note f = SanaMultiscaleLinearAttention_init_Inr [OF init]
  from f(6) obtain n where n: "norm_out attn = RMSNorm_module n"
    "rms_weight n = Some (replicate (nat c) 1)" "rms_bias n = Some (replicate (nat c) 0)"
    by blast
  from fwd obtain q where q: "Linear_forward_shape (to_q attn) [B, H, W, C] = Inr q"
    by (auto simp: SanaMultiscaleAttnProcessor2_0_call_shape_def bind_eq_Inr)
  have C: "nat c = C"
    using Linear_forward_shape_rank4 [OF q] f(2) by auto
  from fwd obtain c' s1 where
    s1: "Linear_forward_shape (to_out attn) [B, H, W, c'] = Inr s1" and
    s2: "bind (movedim_last_1 s1) (\<lambda>hs.
           bind (norm_over_channels_shape (attn_norm_type attn) (norm_out attn) hs) (\<lambda>hs.
           if residual_connection attn then broadcast_result hs [B, C, H, W] else Inr hs)) = Inr out"
    by (auto simp: SanaMultiscaleAttnProcessor2_0_call_shape_def bind_eq_Inr)
  have 1: "s1 = [B, H, W, C]"
    using Linear_forward_shape_rank4 [OF s1] f(3) C by simp
  have "RMSNorm_forward_shape n [B, H, W, C] = Inr [B, H, W, C]"
    using RMSNorm_forward_shape_channels [OF n(2,3)] C by simp
  then show ?thesis
    using s2
    by (simp add: 1 f(4,5) norm_over_channels_shape_def n(1) normalization_forward_shape_def)
qed

lemma EfficientViTBlock_preserves_shape:
  assumes init: "EfficientViTBlock_init c head_dim ks ''rms_norm'' = Inr blk"
    and fwd: "EfficientViTBlock_forward_shape blk [B, C, H, W] = Inr out"
  shows "out = [B, C, H, W]"
proof -
  from init obtain attn conv where
    a: "SanaMultiscaleLinearAttention_init c c None head_dim ''rms_norm'' ks (1 / 10 ^ 15) True
          = Inr attn" and
    g: "GLUMBConv_init c c = Inr conv" and
    blk: "blk = \<lparr>evb_attn = attn, evb_conv_out = conv\<rparr>"
    by (auto simp: EfficientViTBlock_init_def bind_eq_Inr)
  from fwd obtain s where
    s: "SanaMultiscaleAttnProcessor2_0_call_shape attn [B, C, H, W] = Inr s" and
    o: "GLUMBConv_forward_shape conv s = Inr out"
    by (auto simp: EfficientViTBlock_forward_shape_def blk bind_eq_Inr)
  have "s = [B, C, H, W]"
    using attention_preserves_shape [OF a s] .
  with o show ?thesis
    using GLUMBConv_preserves_shape [OF g] by simp
qed

lemma get_block_keeps_shape:
  assumes "get_block bt c c head_dim ''rms_norm'' ''silu'' ks = Inr b"
  shows "keeps_shape b"
proof (cases "bt = ''ResBlock''")
  case True
  with assms obtain r where r: "ResBlock_init c c ''rms_norm'' (Some ''silu'') = Inr r"
    and b: "b = ResBlock_block r"
    by (auto simp: get_block_def bind_eq_Inr)
  show ?thesis
    using ResBlock_preserves_shape [OF r]
    by (simp add: keeps_shape_def b block_forward_shape_def)
next
  case False
  with assms obtain e where e: "EfficientViTBlock_init c head_dim ks ''rms_norm'' = Inr e"
    and b: "b = EfficientViTBlock_block e"
    by (auto simp: get_block_def bind_eq_Inr split: if_splits)
  show ?thesis
    using EfficientViTBlock_preserves_shape [OF e]
    by (simp add: keeps_shape_def b block_forward_shape_def)
qed

lemma stride2_size:
  assumes "even H" and "0 < H"
  shows "nat ((int H - 1) div 2 + 1) = H div 2"
proof -
  from assms(1) obtain m where m: "H = 2 * m" by (auto elim: evenE)
  with assms(2) have "0 < m" by auto
  then have "(int H - 1) div 2 = int m - 1"
    using m by simp
  then show ?thesis using m by simp
qed

lemma DCDownBlock2d_init_Inr:
  assumes "DCDownBlock2d_init cin cout ds sc = Inr d"
  shows "down_factor d = 2" and "down_downsample d = ds" and "down_shortcut d = sc"
    and "conv_kernel_size (down_conv d) = 3" and "conv_padding (down_conv d) = 1"
    and "conv_stride (down_conv d) = (if ds then 1 else 2)"
    and "conv_in_channels (down_conv d) = cin"
    and "0 < conv_out_channels (down_conv d)"
    and "cin = 0 \<longrightarrow> down_group_size d = 0"
  using assms
  by (auto simp: DCDownBlock2d_init_def Let_def bind_eq_Inr split: if_splits
        dest!: Conv2d_init_Inr)

text \<open>
  Pixel-unshuffle by two halves the height and width of a feature map that has
  elements. The shortcut does so as well when the map has a batch and a spatial
  extent: without channels it stays as it is, and a group size of zero then makes
  \<^verbatim>\<open>unflatten\<close> raise.
\<close>

lemma pixel_unshuffle_shape_2:
  assumes "pixel_unshuffle_shape [B, C, H, W] 2 = Inr out"
    and "0 < B" "0 < C" "0 < H" "0 < W"
  shows "out = [B, C * 2 * 2, H div 2, W div 2]"
  using assms by (auto simp: pixel_unshuffle_shape_def split: if_splits)

lemma shortcut_shape_halves:
  assumes "DCDownBlock2d_shortcut_shape d [B, C, H, W] = Inr y" and "down_factor d = 2"
    and "0 < B" "0 < H" "0 < W" and "C = 0 \<longrightarrow> down_group_size d = 0"
  shows "\<exists>c. y = [B, c, H div 2, W div 2]"
  using assms
  by (auto simp: DCDownBlock2d_shortcut_shape_def bind_eq_Inr unflatten_dim1_shape_def
        mean_dim2_shape_def pixel_unshuffle_shape_def split: if_splits)

lemma DCDownBlock2d_halves_shape:
  assumes init: "DCDownBlock2d_init cin cout ds sc = Inr d"
  shows "halves_shape d"
  unfolding halves_shape_def
proof (intro allI impI, elim conjE)
  fix B C H W :: nat and out
  assume pos: "0 < B" "0 < H" "0 < W"
    and ev: "even H" "even W"
    and fwd: "DCDownBlock2d_forward_shape d [B, C, H, W] = Inr out"
  note f = DCDownBlock2d_init_Inr [OF init]
  from fwd obtain x0 x where
    x0: "Conv2d_forward_shape (down_conv d) [B, C, H, W] = Inr x0" and
    x': "(if down_downsample d then pixel_unshuffle_shape x0 (down_factor d) else Inr x0) = Inr x" and
    o': "(if down_shortcut d
          then bind (DCDownBlock2d_shortcut_shape d [B, C, H, W]) (\<lambda>y. broadcast_result x y)
          else Inr x) = Inr out"
    by (auto simp: DCDownBlock2d_forward_shape_def bind_eq_Inr)
  have x: "(if ds then pixel_unshuffle_shape x0 2 else Inr x0) = Inr x"
    using x' f by (auto split: if_splits)
  have o: "(if sc then bind (DCDownBlock2d_shortcut_shape d [B, C, H, W]) (\<lambda>y. broadcast_result x y)
         else Inr x) = Inr out"
    using o' f by (auto split: if_splits)
  have "\<exists>c. x = [B, c, H div 2, W div 2]"
  proof (cases ds)
    case True
    then have "x0 = [B, nat (conv_out_channels (down_conv d)), H, W]"
      using Conv2d_same_size [OF x0] f by simp
    moreover have "0 < nat (conv_out_channels (down_conv d))"
      using f(8) by simp
    ultimately show ?thesis
      using x True pos
        pixel_unshuffle_shape_2 [of B "nat (conv_out_channels (down_conv d))" H W x]
      by auto
  next
    case False
    then show ?thesis
      using x0 x ev pos
      by (auto simp: Conv2d_forward_shape_def conv_out_size_def f stride2_size split: if_splits)
  qed
  then obtain c where c: "x = [B, c, H div 2, W div 2]" ..
  show "\<exists>c. out = [B, c, H div 2, W div 2]"
  proof (cases sc)
    case True
    with o obtain y where y: "DCDownBlock2d_shortcut_shape d [B, C, H, W] = Inr y"
      and b: "broadcast_result x y = Inr out"
      by (auto simp: bind_eq_Inr)
    have "C = 0 \<longrightarrow> down_group_size d = 0"
      using Conv2d_forward_channels [OF x0] f(7,9) by auto
    from shortcut_shape_halves [OF y f(1) pos this]
    obtain c' where "y = [B, c', H div 2, W div 2]" ..
    with b c show ?thesis
      using broadcast_result_channels_Inr by blast
  next
    case False
    with o c show ?thesis by auto
  qed
qed

lemma fold_result_append:
  "fold_result f (xs @ ys) x = bind (fold_result f xs x) (fold_result f ys)"
  by (induction xs arbitrary: x) (auto simp: bind_def split: sum.splits)

lemma fold_result_concat:
  "fold_result (fold_result f) xss x = fold_result f (concat xss) x"
  by (induction xss arbitrary: x) (auto simp: fold_result_append bind_def split: sum.splits)

lemma div_div_pow2: "(H div 2) div 2 ^ n = H div 2 ^ Suc n" for H :: nat
  by (simp add: div_mult2_eq)

lemma dvd_half: "2 ^ Suc n dvd H \<Longrightarrow> 2 ^ n dvd H div 2 \<and> even H" for H :: nat
  by (auto simp: dvd_def)

lemma layers_shape:
  assumes "\<forall>l \<in> set ls. good_layer l"
    and "fold_result layer_forward_shape ls [B, C, H, W] = Inr out"
    and "2 ^ num_down_layers ls dvd H" and "2 ^ num_down_layers ls dvd W"
    and "0 < B" and "0 < H" and "0 < W"
  shows "\<exists>c. out = [B, c, H div 2 ^ num_down_layers ls, W div 2 ^ num_down_layers ls]"
  using assms
proof (induction ls arbitrary: C H W)
  case Nil
  then show ?case by (auto simp: num_down_layers_def)
next
  case (Cons l ls)
  from Cons.prems(2) obtain s where s: "layer_forward_shape l [B, C, H, W] = Inr s"
    and rest: "fold_result layer_forward_shape ls s = Inr out"
    by (auto simp: bind_eq_Inr)
  show ?case
  proof (cases l)
    case (Block_layer b)
    then have "keeps_shape b" using Cons.prems(1) by simp
    then have "s = [B, C, H, W]"
      using s Block_layer by (auto simp: keeps_shape_def layer_forward_shape_def)
    moreover have "num_down_layers (l # ls) = num_down_layers ls"
      using Block_layer by (simp add: num_down_layers_def)
    ultimately show ?thesis
      using Cons.IH [of C H W] Cons.prems rest by simp
  next
    case (Down_layer d)
    then have h: "halves_shape d" using Cons.prems(1) by simp
    have n: "num_down_layers (l # ls) = Suc (num_down_layers ls)"
      using Down_layer by (simp add: num_down_layers_def)
    have H: "2 ^ num_down_layers ls dvd H div 2" "even H"
      and W: "2 ^ num_down_layers ls dvd W div 2" "even W"
      using Cons.prems(3,4) dvd_half unfolding n by blast+
    have "DCDownBlock2d_forward_shape d [B, C, H, W] = Inr s"
      using s Down_layer by (simp add: layer_forward_shape_def)
    with h [unfolded halves_shape_def] H(2) W(2) Cons.prems(5,6,7)
    obtain c where "s = [B, c, H div 2, W div 2]"
      by blast
    moreover have "0 < H div 2" "0 < W div 2"
      using H(2) W(2) Cons.prems(6,7) by (auto elim!: evenE)
    ultimately show ?thesis
      using Cons.IH [of c "H div 2" "W div 2"] Cons.prems(1,5) rest H(1) W(1)
      unfolding n by (simp add: div_div_pow2 del: power_Suc)
  qed
qed

lemma map_result_list_all2:
  "map_result f xs = Inr ys \<longleftrightarrow> list_all2 (\<lambda>x y. f x = Inr y) xs ys"
proof (induction xs arbitrary: ys)
  case Nil
  then show ?case by auto
next
  case (Cons x xs)
  then show ?case
    by (cases ys) (auto simp: bind_eq_Inr)
qed

lemma Encoder_stage_init_Inr:
  assumes "Encoder_stage_init a bt (i, oc, nl) = Inr ls"
  shows "\<forall>l \<in> set ls. good_layer l"
    and "num_down_layers ls
           = (if int i < int (length (arg_block_out_channels a)) - 1 \<and> 0 < nl then 1 else 0)"
proof -
  from assms obtain blocks where
    blocks: "map_result (\<lambda>_. bind (py_index bt i) (\<lambda>t.
               bind (py_index (arg_qkv_multiscales a) i) (\<lambda>kernel_sizes.
               get_block t oc oc (arg_attention_head_dim a) ''rms_norm'' ''silu'' kernel_sizes)))
             (replicate (nat nl) ()) = Inr blocks" and
    ls: "(if int i < int (length (arg_block_out_channels a)) - 1 \<and> nl > 0 then
            bind (py_index (arg_block_out_channels a) (i + 1)) (\<lambda>next_channels.
            bind (DCDownBlock2d_init oc next_channels
                    (arg_downsample_block_type a = ''pixel_unshuffle'') True) (\<lambda>down.
            Inr (map Block_layer blocks @ [Down_layer down])))
          else Inr (map Block_layer blocks)) = Inr ls"
    by (auto simp: Encoder_stage_init_def bind_eq_Inr)
  have keeps: "keeps_shape b" if "b \<in> set blocks" for b
  proof -
    from blocks that obtain t ks where
      "get_block t oc oc (arg_attention_head_dim a) ''rms_norm'' ''silu'' ks = Inr b"
      by (auto simp: map_result_list_all2 list_all2_conv_all_nth in_set_conv_nth bind_eq_Inr)
    then show ?thesis by (rule get_block_keeps_shape)
  qed
  have nd: "num_down_layers (map Block_layer blocks) = 0"
    by (simp add: num_down_layers_def filter_empty_conv)
  show "\<forall>l \<in> set ls. good_layer l"
  proof (cases "int i < int (length (arg_block_out_channels a)) - 1 \<and> nl > 0")
    case True
    with ls obtain c down where
      d: "DCDownBlock2d_init oc c (arg_downsample_block_type a = ''pixel_unshuffle'') True
            = Inr down" and
      l: "ls = map Block_layer blocks @ [Down_layer down]"
      by (auto simp: bind_eq_Inr)
    have "halves_shape down"
      using d by (rule DCDownBlock2d_halves_shape)
    then show ?thesis
      using l keeps by auto
  next
    case False
    with ls keeps show ?thesis by auto
  qed
  show "num_down_layers ls
           = (if int i < int (length (arg_block_out_channels a)) - 1 \<and> 0 < nl then 1 else 0)"
    using ls nd
    by (auto simp: bind_eq_Inr num_down_layers_def split: if_splits)
qed

lemma stages_Inr:
  assumes "map_result (Encoder_stage_init a bt) sts = Inr stages"
  shows "\<forall>l \<in> set (concat stages). good_layer l"
    and "num_down_layers (concat stages)
           = length (filter (\<lambda>(i, oc, nl). int i < int (length (arg_block_out_channels a)) - 1
                                \<and> 0 < nl) sts)"
  using assms
proof (induction sts arbitrary: stages)
  case Nil
  { case 1 then show ?case by simp }
  { case 2 then show ?case by (simp add: num_down_layers_def) }
next
  case (Cons st sts)
  obtain i oc nl where st: "st = (i, oc, nl)" by (cases st) auto
  { case 1
    then obtain ls rest where ls: "Encoder_stage_init a bt (i, oc, nl) = Inr ls"
      and rest: "map_result (Encoder_stage_init a bt) sts = Inr rest"
      and stages: "stages = ls # rest"
      by (auto simp: bind_eq_Inr st)
    show ?case
      using Encoder_stage_init_Inr(1) [OF ls] Cons.IH(1) [OF rest] stages by auto }
  { case 2
    then obtain ls rest where ls: "Encoder_stage_init a bt (i, oc, nl) = Inr ls"
      and rest: "map_result (Encoder_stage_init a bt) sts = Inr rest"
      and stages: "stages = ls # rest"
      by (auto simp: bind_eq_Inr st)
    have "num_down_layers (ls @ concat rest) = num_down_layers ls + num_down_layers (concat rest)"
      by (simp add: num_down_layers_def)
    then show ?case
      using Encoder_stage_init_Inr(2) [OF ls] Cons.IH(2) [OF rest] stages st by simp }
qed

lemma Encoder_init_Inr:
  assumes "Encoder_init a = Inr enc"
  obtains layers0 conv_in stages last_channels where
    "py_index (arg_layers_per_block a) 0 = Inr layers0"
    "(if layers0 > 0 then
        bind (py_index (arg_block_out_channels a) 0) (\<lambda>c.
        bind (Conv2d_init (arg_in_channels a) c 3 1 1 1) (\<lambda>conv. Inr (Conv_in conv)))
      else
        bind (py_index (arg_block_out_channels a) 1) (\<lambda>c.
        bind (DCDownBlock2d_init (arg_in_channels a) c
                (arg_downsample_block_type a = ''pixel_unshuffle'') False) (\<lambda>down.
        Inr (Down_in down)))) = Inr conv_in"
    "enc_conv_in enc = conv_in"
    "\<exists>bt. map_result (Encoder_stage_init a bt)
       (enumerate 0 (zip (arg_block_out_channels a) (arg_layers_per_block a))) = Inr stages"
    "enc_down_blocks enc = stages"
    "py_last (arg_block_out_channels a) = Inr last_channels"
    "Conv2d_init last_channels (arg_latent_channels a) 3 1 1 1 = Inr (enc_conv_out enc)"
    "enc_out_shortcut enc = arg_out_shortcut a"
    "arg_out_shortcut a \<Longrightarrow> arg_latent_channels a \<noteq> 0
       \<and> enc_out_shortcut_average_group_size enc = Some (last_channels div arg_latent_channels a)"
proof -
  from assms obtain layers0 conv_in stages last_channels conv_out g where
    1: "py_index (arg_layers_per_block a) 0 = Inr layers0" and
    2: "(if layers0 > 0 then
        bind (py_index (arg_block_out_channels a) 0) (\<lambda>c.
        bind (Conv2d_init (arg_in_channels a) c 3 1 1 1) (\<lambda>conv. Inr (Conv_in conv)))
      else
        bind (py_index (arg_block_out_channels a) 1) (\<lambda>c.
        bind (DCDownBlock2d_init (arg_in_channels a) c
                (arg_downsample_block_type a = ''pixel_unshuffle'') False) (\<lambda>down.
        Inr (Down_in down)))) = Inr conv_in" and
    3: "map_result (Encoder_stage_init a
          (case arg_block_type a of
             One_type t \<Rightarrow> replicate (length (arg_block_out_channels a)) t
           | Per_stage ts \<Rightarrow> ts))
       (enumerate 0 (zip (arg_block_out_channels a) (arg_layers_per_block a))) = Inr stages" and
    4: "py_last (arg_block_out_channels a) = Inr last_channels" and
    5: "Conv2d_init last_channels (arg_latent_channels a) 3 1 1 1 = Inr conv_out" and
    6: "(if arg_out_shortcut a then
           (if arg_latent_channels a = 0 then Inl ZeroDivisionError
            else Inr (Some (last_channels div arg_latent_channels a)))
         else Inr None) = Inr g" and
    7: "enc = \<lparr>enc_conv_in = conv_in, enc_down_blocks = stages, enc_conv_out = conv_out,
           enc_out_shortcut = arg_out_shortcut a,
           enc_out_shortcut_average_group_size = g\<rparr>"
    unfolding Encoder_init_def Let_def bind_eq_Inr by blast
  show ?thesis
    using that [of layers0 conv_in stages last_channels] 1 2 3 4 5 6 7
    by (auto split: if_splits)
qed

lemma input_layer_count:
  fixes layers0 :: int
  assumes "(if layers0 > 0 then
        bind (py_index boc 0) (\<lambda>c.
        bind (Conv2d_init cin c 3 1 1 1) (\<lambda>conv. Inr (Conv_in conv)))
      else
        bind (py_index boc 1) (\<lambda>c.
        bind (DCDownBlock2d_init cin c ds False) (\<lambda>down.
        Inr (Down_in down)))) = Inr conv_in"
  shows "(case conv_in of Down_in d \<Rightarrow> 1 | Conv_in c \<Rightarrow> 0) = (if layers0 > 0 then 0 else (1::nat))"
  using assms by (auto simp: bind_eq_Inr split: if_splits)

lemma input_layer_shape:
  fixes layers0 :: int
  assumes init: "(if layers0 > 0 then
        bind (py_index boc 0) (\<lambda>c.
        bind (Conv2d_init cin c 3 1 1 1) (\<lambda>conv. Inr (Conv_in conv)))
      else
        bind (py_index boc 1) (\<lambda>c.
        bind (DCDownBlock2d_init cin c ds False) (\<lambda>down.
        Inr (Down_in down)))) = Inr conv_in"
    and fwd: "input_layer_forward_shape conv_in [B, C, H, W] = Inr s"
    and ev: "layers0 \<le> 0 \<longrightarrow> even H \<and> even W"
    and pos: "0 < B" "0 < H" "0 < W"
  shows "\<exists>c. s = (if layers0 > 0 then [B, c, H, W] else [B, c, H div 2, W div 2])"
proof (cases "layers0 > 0")
  case True
  with init obtain c conv where conv: "Conv2d_init cin c 3 1 1 1 = Inr conv"
    and ci: "conv_in = Conv_in conv"
    by (auto simp: bind_eq_Inr)
  have "Conv2d_forward_shape conv [B, C, H, W] = Inr s"
    using fwd ci by (simp add: input_layer_forward_shape_def)
  from Conv2d_same_size [OF this] Conv2d_init_Inr [OF conv] True show ?thesis
    by simp
next
  case False
  with init obtain c down where d: "DCDownBlock2d_init cin c ds False = Inr down"
    and ci: "conv_in = Down_in down"
    by (auto simp: bind_eq_Inr)
  have "DCDownBlock2d_forward_shape down [B, C, H, W] = Inr s"
    using fwd ci by (simp add: input_layer_forward_shape_def)
  with DCDownBlock2d_halves_shape [OF d, unfolded halves_shape_def] ev False pos
  show ?thesis by auto
qed

lemma output_projection_shape:
  assumes conv: "Conv2d_init last_channels latent 3 1 1 1 = Inr conv_out"
    and fwd: "(if sc then
       (case g of
          None \<Rightarrow> Inl AttributeError
        | Some g \<Rightarrow>
            bind (unflatten_dim1_shape [B, C, H, W] g) (\<lambda>x.
            bind (mean_dim2_shape x) (\<lambda>x.
            bind (Conv2d_forward_shape conv_out [B, C, H, W]) (\<lambda>hs.
            broadcast_result hs x))))
     else Conv2d_forward_shape conv_out [B, C, H, W]) = Inr out"
    and g: "sc \<Longrightarrow> latent \<noteq> 0 \<and> g = Some (last_channels div latent)"
  shows "out = [B, nat latent, H, W]"
proof (cases sc)
  case False
  with fwd have "Conv2d_forward_shape conv_out [B, C, H, W] = Inr out" by simp
  from Conv2d_same_size [OF this] Conv2d_init_Inr [OF conv] show ?thesis by simp
next
  case True
  note c = Conv2d_init_Inr [OF conv]
  define gs where "gs = last_channels div latent"
  from True g have gsome: "g = Some gs" by (simp add: gs_def)
  from fwd True gsome obtain x hs where
    x: "bind (unflatten_dim1_shape [B, C, H, W] gs) mean_dim2_shape = Inr x" and
    hs: "Conv2d_forward_shape conv_out [B, C, H, W] = Inr hs" and
    b: "broadcast_result hs x = Inr out"
    by (auto simp: bind_eq_Inr)
  from Conv2d_same_size [OF hs] c have hs': "hs = [B, nat latent, H, W]"
    and C: "int C = last_channels"
    by simp_all
  from x have x': "x = [B, C div nat gs, H, W]" and gpos: "0 < gs" and gdvd: "C mod nat gs = 0"
    by (auto simp: unflatten_dim1_shape_def mean_dim2_shape_def bind_eq_Inr split: if_splits)
  from b obtain bc where bc: "broadcast_dim (nat latent) (C div nat gs) = Some bc"
    and out: "out = [B, bc, H, W]"
    by (auto simp: hs' x' broadcast_result_channels split: option.splits)
  have "bc = nat latent"
  proof (cases "nat latent = 1")
    case False
    with bc show ?thesis
      by (auto simp: broadcast_dim_def split: if_splits)
  next
    case True
    then have "latent = 1" by auto
    then have "nat gs = C" using C by (simp add: gs_def)
    moreover have "0 < C" using gpos calculation by auto
    ultimately have "C div nat gs = 1" by simp
    with bc True show ?thesis
      by (simp add: broadcast_dim_def)
  qed
  with out show ?thesis by simp
qed

lemma sum_flags:
  fixes p :: "nat \<Rightarrow> bool"
  assumes "\<forall>i. 0 < i \<and> i + 1 < S \<longrightarrow> p i" and "2 \<le> S"
  shows "card {i. i < S \<and> i + 1 < S \<and> p i} = (if p 0 then S - 1 else S - 2)"
proof -
  have "(i < S \<and> i + 1 < S \<and> p i) = (i \<in> (if p 0 then {0..<S - 1} else {1..<S - 1}))" for i
    using assms by (cases "i = 0") auto
  then have "{i. i < S \<and> i + 1 < S \<and> p i} = (if p 0 then {0..<S - 1} else {1..<S - 1})"
    by blast
  then show ?thesis by (simp add: numeral_2_eq_2)
qed

lemma filter_enumerate_card:
  "length (filter (\<lambda>(i, x). q i x) (enumerate 0 xs)) = card {i. i < length xs \<and> q i (xs ! i)}"
proof -
  have "length (filter (\<lambda>(i, x). q i x) (enumerate 0 xs))
      = card {i. i < length (enumerate 0 xs) \<and> (\<lambda>(i, x). q i x) (enumerate 0 xs ! i)}"
    by (rule length_filter_conv_card)
  also have "{i. i < length (enumerate 0 xs) \<and> (\<lambda>(i, x). q i x) (enumerate 0 xs ! i)}
      = {i. i < length xs \<and> q i (xs ! i)}"
    by (auto simp: nth_enumerate_eq)
  finally show ?thesis .
qed

lemma pow2_dvd_split:
  fixes H :: nat
  assumes "2 ^ (k0 + kl) dvd H"
  shows "2 ^ kl dvd H div 2 ^ k0" and "(H div 2 ^ k0) div 2 ^ kl = H div 2 ^ (k0 + kl)"
    and "0 < k0 \<Longrightarrow> even H"
    and "0 < H \<Longrightarrow> 0 < H div 2 ^ k0"
proof -
  from assms obtain m where m: "H = 2 ^ (k0 + kl) * m" by (auto simp: dvd_def)
  then have half: "H div 2 ^ k0 = 2 ^ kl * m"
    by (simp add: power_add mult.assoc)
  then show "2 ^ kl dvd H div 2 ^ k0" by simp
  show "0 < H div 2 ^ k0" if "0 < H"
    using m that unfolding half by (cases m) auto
  show "(H div 2 ^ k0) div 2 ^ kl = H div 2 ^ (k0 + kl)"
    by (simp add: div_mult2_eq power_add)
  show "even H" if "0 < k0"
    using m that by (cases k0) auto
qed

lemma Encoder_num_down_stages:
  assumes len: "length (arg_layers_per_block a) = length (arg_block_out_channels a)"
    and mid: "\<forall>i. 0 < i \<and> i + 1 < length (arg_block_out_channels a)
                \<longrightarrow> 0 < arg_layers_per_block a ! i"
    and two: "2 \<le> length (arg_block_out_channels a)"
  shows "length (filter (\<lambda>(i, oc, nl). int i < int (length (arg_block_out_channels a)) - 1 \<and> 0 < nl)
           (enumerate 0 (zip (arg_block_out_channels a) (arg_layers_per_block a))))
         = (if 0 < arg_layers_per_block a ! 0 then length (arg_block_out_channels a) - 1
            else length (arg_block_out_channels a) - 2)"
proof -
  let ?S = "length (arg_block_out_channels a)"
  let ?xs = "zip (arg_block_out_channels a) (arg_layers_per_block a)"
  have "length (filter (\<lambda>(i, oc, nl). int i < int ?S - 1 \<and> 0 < nl) (enumerate 0 ?xs))
      = length (filter (\<lambda>(i, x). int i < int ?S - 1 \<and> 0 < snd x) (enumerate 0 ?xs))"
    by (intro arg_cong [where f = length] filter_cong) auto
  also have "\<dots> = card {i. i < length ?xs \<and> (int i < int ?S - 1 \<and> 0 < snd (?xs ! i))}"
    by (rule filter_enumerate_card)
  also have "{i. i < length ?xs \<and> (int i < int ?S - 1 \<and> 0 < snd (?xs ! i))}
      = {i. i < ?S \<and> i + 1 < ?S \<and> 0 < arg_layers_per_block a ! i}"
    using len by auto
  also have "card \<dots> = (if 0 < arg_layers_per_block a ! 0 then ?S - 1 else ?S - 2)"
    using sum_flags [of ?S "\<lambda>i. 0 < arg_layers_per_block a ! i"] mid two by simp
  finally show ?thesis .
qed

lemma Encoder_forward_shape_contract:
  assumes init: "Encoder_init a = Inr enc"
    and fwd: "Encoder_forward_shape enc [B, C, H, W] = Inr out"
    and dH: "2 ^ Encoder_num_down enc dvd H"
    and dW: "2 ^ Encoder_num_down enc dvd W"
    and pos: "0 < B" "0 < H" "0 < W"
  shows "out = [B, nat (arg_latent_channels a),
                H div 2 ^ Encoder_num_down enc, W div 2 ^ Encoder_num_down enc]
     \<and> (length (arg_layers_per_block a) = length (arg_block_out_channels a)
          \<and> (\<forall>i. 0 < i \<and> i + 1 < length (arg_block_out_channels a)
                 \<longrightarrow> 0 < arg_layers_per_block a ! i)
        \<longrightarrow> Encoder_num_down enc = length (arg_block_out_channels a) - 1)"
proof -
  from init obtain layers0 conv_in stages last_channels bt where
    l0: "py_index (arg_layers_per_block a) 0 = Inr layers0" and
    ci: "(if layers0 > 0 then
        bind (py_index (arg_block_out_channels a) 0) (\<lambda>c.
        bind (Conv2d_init (arg_in_channels a) c 3 1 1 1) (\<lambda>conv. Inr (Conv_in conv)))
      else
        bind (py_index (arg_block_out_channels a) 1) (\<lambda>c.
        bind (DCDownBlock2d_init (arg_in_channels a) c
                (arg_downsample_block_type a = ''pixel_unshuffle'') False) (\<lambda>down.
        Inr (Down_in down)))) = Inr conv_in" and
    eci: "enc_conv_in enc = conv_in" and
    st: "map_result (Encoder_stage_init a bt)
       (enumerate 0 (zip (arg_block_out_channels a) (arg_layers_per_block a))) = Inr stages" and
    est: "enc_down_blocks enc = stages" and
    co: "Conv2d_init last_channels (arg_latent_channels a) 3 1 1 1 = Inr (enc_conv_out enc)" and
    sc: "enc_out_shortcut enc = arg_out_shortcut a" and
    g: "arg_out_shortcut a \<Longrightarrow> arg_latent_channels a \<noteq> 0
       \<and> enc_out_shortcut_average_group_size enc = Some (last_channels div arg_latent_channels a)"
    by (rule Encoder_init_Inr) blast
  define k0 :: nat where "k0 = (if layers0 > 0 then 0 else 1)"
  define kl where "kl = num_down_layers (concat stages)"
  from fwd obtain s1 s2 where
    s1: "input_layer_forward_shape conv_in [B, C, H, W] = Inr s1" and
    s2: "fold_result layer_forward_shape (concat stages) s1 = Inr s2" and
    fin: "(if arg_out_shortcut a then
       (case enc_out_shortcut_average_group_size enc of
          None \<Rightarrow> Inl AttributeError
        | Some g \<Rightarrow>
            bind (unflatten_dim1_shape s2 g) (\<lambda>x.
            bind (mean_dim2_shape x) (\<lambda>x.
            bind (Conv2d_forward_shape (enc_conv_out enc) s2) (\<lambda>hs.
            broadcast_result hs x))))
     else Conv2d_forward_shape (enc_conv_out enc) s2) = Inr out"
    by (auto simp: Encoder_forward_shape_def bind_eq_Inr eci est sc fold_result_concat)
  have k: "Encoder_num_down enc = k0 + kl"
    using input_layer_count [OF ci]
    by (simp add: Encoder_num_down_def eci est k0_def kl_def)
  note pH = pow2_dvd_split [OF dH [unfolded k]]
  note pW = pow2_dvd_split [OF dW [unfolded k]]
  have ev: "layers0 \<le> 0 \<longrightarrow> even H \<and> even W"
    using pH(3) pW(3) by (simp add: k0_def)
  from input_layer_shape [OF ci s1 ev pos] obtain c1 where
    1: "s1 = [B, c1, H div 2 ^ k0, W div 2 ^ k0]"
    by (auto simp: k0_def split: if_splits)
  from layers_shape [OF stages_Inr(1) [OF st] s2 [unfolded 1] pH(1) [unfolded kl_def]
         pW(1) [unfolded kl_def] pos(1) pH(4) [OF pos(2)] pW(4) [OF pos(3)]]
  obtain c2 where "s2 = [B, c2, H div 2 ^ k0 div 2 ^ kl, W div 2 ^ k0 div 2 ^ kl]"
    unfolding kl_def by blast
  then have 2: "s2 = [B, c2, H div 2 ^ (k0 + kl), W div 2 ^ (k0 + kl)]"
    by (simp add: pH(2) pW(2))
  have shape: "out = [B, nat (arg_latent_channels a), H div 2 ^ (k0 + kl), W div 2 ^ (k0 + kl)]"
    using output_projection_shape [OF co fin [unfolded 2] g] by simp
  have count: "k0 + kl = length (arg_block_out_channels a) - 1"
    if len: "length (arg_layers_per_block a) = length (arg_block_out_channels a)"
      and mid: "\<forall>i. 0 < i \<and> i + 1 < length (arg_block_out_channels a)
                  \<longrightarrow> 0 < arg_layers_per_block a ! i"
  proof -
    let ?S = "length (arg_block_out_channels a)"
    have kl': "kl = length (filter (\<lambda>(i, oc, nl). int i < int ?S - 1 \<and> 0 < nl)
           (enumerate 0 (zip (arg_block_out_channels a) (arg_layers_per_block a))))"
      unfolding kl_def by (rule stages_Inr(2) [OF st])
    from l0 have S1: "0 < ?S" and lay: "layers0 = arg_layers_per_block a ! 0"
      using len by (auto simp: py_index_def split: if_splits)
    show ?thesis
    proof (cases "2 \<le> ?S")
      case True
      show ?thesis
        using Encoder_num_down_stages [OF len mid True] True
        by (auto simp: kl' k0_def lay)
    next
      case False
      with S1 have one: "?S = 1" by linarith
      then have "layers0 > 0"
        using ci by (auto simp: py_index_def bind_eq_Inr split: if_splits)
      moreover have "kl = 0"
        unfolding kl' using one len
        by (cases "arg_block_out_channels a"; cases "arg_layers_per_block a")
           (auto simp: enumerate_simps)
      ultimately show ?thesis
        by (simp add: k0_def one)
    qed
  qed
  from shape count show ?thesis
    by (simp add: k)
qed

lemmas init_defs =
  Encoder_init_def Encoder_stage_init_def get_block_def ResBlock_init_def
  EfficientViTBlock_init_def SanaMultiscaleLinearAttention_init_def
  SanaMultiscaleAttentionProjection_init_def GLUMBConv_init_def DCDownBlock2d_init_def
  Conv2d_init_def Linear_init_def RMSNorm_init_def get_normalization_default_def
  get_normalization_def get_activation_silu py_index_def py_last_def enumerate_simps Let_def

lemmas forward_defs =
  Encoder_forward_shape_def input_layer_forward_shape_def layer_forward_shape_def
  block_forward_shape_def ResBlock_forward_shape_def EfficientViTBlock_forward_shape_def
  SanaMultiscaleAttnProcessor2_0_call_shape_def GLUMBConv_forward_shape_def
  SanaMultiscaleAttentionProjection_forward_shape_def
  DCDownBlock2d_forward_shape_def DCDownBlock2d_shortcut_shape_def
  Conv2d_forward_shape_def conv_out_size_def Linear_forward_shape_def
  norm_over_channels_shape_def normalization_forward_shape_def RMSNorm_forward_shape_def
  pixel_unshuffle_shape_def unflatten_dim1_shape_def mean_dim2_shape_def
  broadcast_result_def broadcast_shapes_def broadcast_dim_def
  cat_shape_def infer_dim_def chunk3_dim2_def chunk2_dim1_def chunk_sizes_def
  apply_linear_attention_shape_def apply_quadratic_attention_shape_def
  use_linear_attention_def pad_row_shape_def transpose_last_shape_def matmul_shape_def
  rows_but_last_shape_def row_last_shape_def sum_dim2_keepdim_shape_def
  Encoder_num_down_def num_down_layers_def num_down_blocks_def

text \<open>
  C4. An encoder of three stages with channels \<open>(8, 16, 16)\<close> and layers \<open>(1, 0, 1)\<close>
  constructs and maps a \<open>16 \<times> 16\<close> input to \<open>8 \<times> 8\<close>, not to \<open>4 \<times> 4\<close>: the middle
  stage has no layer, so it gets no down-sampling block. And an encoder of two stages
  with 3 latent channels for 16 final channels constructs, but its forward pass
  raises: the outer shortcut cannot group 16 channels by \<open>16 // 3 = 5\<close>.
\<close>

theorem Encoder_shape_counterexample:
  "(\<exists>enc. Encoder_init skipped_stage_args = Inr enc
      \<and> Encoder_forward_shape enc [1, 3, 16, 16] = Inr [1, 4, 8, 8]
      \<and> length (arg_block_out_channels skipped_stage_args) = 3
      \<and> (2::nat) ^ (3 - 1) dvd 16
      \<and> [1, 4, 8, 8] \<noteq> [1, 4, 16 div 2 ^ (3 - 1), 16 div 2 ^ (3 - 1) :: nat])
   \<and> (\<exists>enc. Encoder_init two_stage_latent3_args = Inr enc
      \<and> length (arg_block_out_channels two_stage_latent3_args) = 2
      \<and> (2::nat) ^ (2 - 1) dvd 16
      \<and> Encoder_forward_shape enc [1, 3, 16, 16] = Inl RuntimeError)"
  by (simp add: skipped_stage_args_def two_stage_latent3_args_def init_defs forward_defs upt_conv_Cons)

text \<open>
  A batch of no elements is not down-sampled by pixel-unshuffle: the encoder without
  layers, whose input projection is its one down-sampling block, returns an empty
  batch with its height and width unchanged. The shape contract below is therefore
  about inputs that have elements.
\<close>

lemma Encoder_empty_batch:
  "\<exists>enc. Encoder_init no_layer_args = Inr enc
      \<and> num_down_blocks no_layer_args = 1
      \<and> Encoder_forward_shape enc [0, 3, 16, 16] = Inr [0, 4, 16, 16]"
  by (simp add: no_layer_args_def init_defs forward_defs upt_conv_Cons)

lemma three_stage_eval:
  "\<exists>enc. Encoder_init three_stage_args = Inr enc
      \<and> Encoder_forward_shape enc [1, 3, 16, 16] = Inr [1, 4, 4, 4]
      \<and> num_down_blocks three_stage_args = 2"
  by (simp add: three_stage_args_def init_defs forward_defs upt_conv_Cons)

lemma Encoder_num_down_eq:
  assumes "Encoder_init a = Inr enc"
  shows "Encoder_num_down enc = num_down_blocks a"
proof -
  from assms obtain layers0 conv_in stages bt where
    l0: "py_index (arg_layers_per_block a) 0 = Inr layers0" and
    ci: "(if layers0 > 0 then
        bind (py_index (arg_block_out_channels a) 0) (\<lambda>c.
        bind (Conv2d_init (arg_in_channels a) c 3 1 1 1) (\<lambda>conv. Inr (Conv_in conv)))
      else
        bind (py_index (arg_block_out_channels a) 1) (\<lambda>c.
        bind (DCDownBlock2d_init (arg_in_channels a) c
                (arg_downsample_block_type a = ''pixel_unshuffle'') False) (\<lambda>down.
        Inr (Down_in down)))) = Inr conv_in" and
    eci: "enc_conv_in enc = conv_in" and
    st: "map_result (Encoder_stage_init a bt)
       (enumerate 0 (zip (arg_block_out_channels a) (arg_layers_per_block a))) = Inr stages" and
    est: "enc_down_blocks enc = stages"
    by (rule Encoder_init_Inr) blast
  from l0 obtain rest where "arg_layers_per_block a = layers0 # rest"
    by (cases "arg_layers_per_block a") (auto simp: py_index_def)
  then show ?thesis
    using input_layer_count [OF ci] stages_Inr(2) [OF st]
    by (simp add: Encoder_num_down_def num_down_blocks_def eci est)
qed

text \<open>
  C4, as amended. For an encoder that constructs and an input of shape
  \<open>(B, C, H, W)\<close> that has elements (\<open>B\<close>, \<open>C\<close>, \<open>H\<close> and \<open>W\<close> are positive), with
  \<open>H\<close> and \<open>W\<close> multiples of \<open>2\<^sup>k\<close>, on which the forward pass returns, the output
  has shape \<open>(B, latent_channels, H / 2\<^sup>k, W / 2\<^sup>k)\<close>, where \<open>k\<close> is the number of
  down-sampling blocks built; \<open>k\<close> is the number of stages minus one when the layer
  counts are as many as the stages and no stage strictly between the first and the
  last has zero layers.
\<close>

theorem Encoder_output_shape:
  assumes init: "Encoder_init a = Inr enc"
    and fwd: "Encoder_forward_shape enc [B, C, H, W] = Inr out"
    and elems: "0 < B" "0 < C" "0 < H" "0 < W"
    and dH: "2 ^ num_down_blocks a dvd H"
    and dW: "2 ^ num_down_blocks a dvd W"
  shows "out = [B, nat (arg_latent_channels a),
                H div 2 ^ num_down_blocks a, W div 2 ^ num_down_blocks a]
     \<and> 0 \<le> arg_latent_channels a
     \<and> (length (arg_layers_per_block a) = length (arg_block_out_channels a)
          \<and> (\<forall>i. 0 < i \<and> i + 1 < length (arg_block_out_channels a)
                 \<longrightarrow> 0 < arg_layers_per_block a ! i)
        \<longrightarrow> num_down_blocks a = length (arg_block_out_channels a) - 1)"
proof -
  note k = Encoder_num_down_eq [OF init]
  have "0 \<le> arg_latent_channels a"
    using init by (rule Encoder_init_Inr) (auto dest: Conv2d_init_Inr)
  then show ?thesis
    using Encoder_forward_shape_contract [OF init fwd _ _ elems(1,3,4)] dH dW unfolding k by simp
qed

theorem Encoder_output_shape_witness:
  "\<exists>enc. Encoder_init three_stage_args = Inr enc
      \<and> Encoder_forward_shape enc [1, 3, 16, 16] = Inr [1, 4, 4, 4]
      \<and> 2 ^ num_down_blocks three_stage_args dvd (16::nat)
      \<and> length (arg_layers_per_block three_stage_args)
          = length (arg_block_out_channels three_stage_args)
      \<and> 0 < arg_layers_per_block three_stage_args ! 1
      \<and> num_down_blocks three_stage_args = length (arg_block_out_channels three_stage_args) - 1
      \<and> [1, 4, 4, 4] = [1, nat (arg_latent_channels three_stage_args),
                         16 div 2 ^ num_down_blocks three_stage_args,
                         16 div 2 ^ num_down_blocks three_stage_args]"
proof -
  from three_stage_eval obtain enc where
    e: "Encoder_init three_stage_args = Inr enc"
       "Encoder_forward_shape enc [1, 3, 16, 16] = Inr [1, 4, 4, 4]"
       "num_down_blocks three_stage_args = 2"
    by blast
  have d: "2 ^ num_down_blocks three_stage_args dvd (16::nat)"
    by (simp add: e(3))
  have len: "length (arg_layers_per_block three_stage_args)
      = length (arg_block_out_channels three_stage_args)"
    by (simp add: three_stage_args_def)
  have mid: "\<forall>i. 0 < i \<and> i + 1 < length (arg_block_out_channels three_stage_args)
      \<longrightarrow> 0 < arg_layers_per_block three_stage_args ! i"
    by (auto simp: three_stage_args_def nth_Cons split: nat.splits)
  have one: "0 < arg_layers_per_block three_stage_args ! 1"
    by (simp add: three_stage_args_def)
  have p: "0 < (1::nat)" "0 < (3::nat)" "0 < (16::nat)"
    by simp_all
  from Encoder_output_shape [OF e(1) e(2) p(1) p(2) p(3) p(3) d d] len mid
  have "[1, 4, 4, 4] = [1, nat (arg_latent_channels three_stage_args),
                         16 div 2 ^ num_down_blocks three_stage_args,
                         16 div 2 ^ num_down_blocks three_stage_args]"
    and "num_down_blocks three_stage_args = length (arg_block_out_channels three_stage_args) - 1"
    by blast+
  with e(1,2) d len one show ?thesis by blast
qed

end
